theory Spec2Isabelle
  imports Main "HOL-Library.Sublist" "HOL-Library.Char_ord" "HOL-Library.List_Lexorder"
    "HOL-Library.AList"
begin

section \<open>Configuration (src/config/index.ts)\<close>

text \<open>
  \<open>process.env\<close> is an association list from variable names to values; a name that
  is not bound reads as \<open>undefined\<close>. \<open>env_or_empty\<close> is the idiom
  \<^verbatim>\<open>process.env[k] || ''\<close> and \<open>env_or_undefined\<close> is \<^verbatim>\<open>process.env[k] || undefined\<close>
  (an empty value is falsy, so it reads as \<open>undefined\<close>).
\<close>

type_synonym env = "(string \<times> string) list"

definition env_or_empty :: "env \<Rightarrow> string \<Rightarrow> string" where
  "env_or_empty e k = (case map_of e k of Some v \<Rightarrow> v | None \<Rightarrow> '''')"

definition env_or_undefined :: "env \<Rightarrow> string \<Rightarrow> string option" where
  "env_or_undefined e k =
     (case map_of e k of Some v \<Rightarrow> (if v = '''' then None else Some v) | None \<Rightarrow> None)"

text \<open>
  One configured page. The source's fields \<open>id\<close> and \<open>name\<close> are \<open>page_id\<close> and
  \<open>page_name\<close> here; the optional \<open>instagramUsername\<close> is \<open>None\<close> when undefined.
\<close>

record page =
  page_id :: string
  page_name :: string
  pageAccessToken :: string
  instagramUsername :: "string option"

text \<open>\<^verbatim>\<open>s.replace(pat, rep)\<close> with a string pattern: the first occurrence only.\<close>

fun js_replace :: "string \<Rightarrow> string \<Rightarrow> string \<Rightarrow> string" where
  "js_replace pat rep [] = (if pat = [] then rep else [])"
| "js_replace pat rep (c # cs) =
     (if prefix pat (c # cs) then rep @ drop (length pat) (c # cs)
      else c # js_replace pat rep cs)"

text \<open>
  \<^verbatim>\<open>Object.keys(process.env).filter(key => key.startsWith('PAGE_ID_')).sort()\<close>:
  each name once, in the order of the default sort (code units, here bytes).
\<close>

definition pageIdKeys :: "env \<Rightarrow> string list" where
  "pageIdKeys e = sort (filter (prefix ''PAGE_ID_'') (remdups (map fst e)))"

text \<open>The body of the \<open>forEach\<close>: the pages pushed for one key (one or none).\<close>

definition pageForKey :: "env \<Rightarrow> string \<Rightarrow> page list" where
  "pageForKey e idKey =
     (let index = js_replace ''PAGE_ID_'' '''' idKey;
          i = env_or_empty e idKey;
          n = env_or_empty e (''PAGE_NAME_'' @ index);
          token = env_or_empty e (''PAGE_TOKEN_'' @ index);
          igUsername = env_or_undefined e (''PAGE_IG_USERNAME_'' @ index)
      in if i \<noteq> '''' \<and> n \<noteq> '''' \<and> token \<noteq> ''''
         then [\<lparr>page_id = i, page_name = n, pageAccessToken = token,
                instagramUsername = igUsername\<rparr>]
         else [])"

fun pushPages :: "env \<Rightarrow> string list \<Rightarrow> page list" where
  "pushPages e [] = []"
| "pushPages e (k # ks) = pageForKey e k @ pushPages e ks"

definition extractPages :: "env \<Rightarrow> page list" where
  "extractPages e = pushPages e (pageIdKeys e)"

text \<open>\<^verbatim>\<open>s.split(',')\<close>: the pieces between the separators; the empty string gives one
  empty piece.\<close>

fun js_split :: "char \<Rightarrow> string \<Rightarrow> string list" where
  "js_split sep [] = [[]]"
| "js_split sep (c # cs) =
     (if c = sep then [] # js_split sep cs
      else (case js_split sep cs of
              w # ws \<Rightarrow> (c # w) # ws
            | [] \<Rightarrow> [[c]]))"

text \<open>
  \<open>extractBusinessIgUsernames\<close>. \<open>String.prototype.trim\<close> is taken as a parameter
  \<open>trim\<close>: which characters count as white space plays no role below.
\<close>

definition extractBusinessIgUsernames :: "(string \<Rightarrow> string) \<Rightarrow> env \<Rightarrow> string list" where
  "extractBusinessIgUsernames trim e =
     filter (\<lambda>username. length username > 0)
       (map trim (js_split CHR '','' (env_or_empty e ''BUSINESS_IG_USERNAMES'')))"

text \<open>\<^verbatim>\<open>pages.map(page => page.instagramUsername).filter(username => username !== undefined)\<close>\<close>

definition getBusinessIgUsernames :: "(string \<Rightarrow> string) \<Rightarrow> env \<Rightarrow> string list" where
  "getBusinessIgUsernames trim e =
     (let explicitUsernames = extractBusinessIgUsernames trim e
      in if length explicitUsernames > 0 then explicitUsernames
         else map the (filter (\<lambda>username. username \<noteq> None)
                         (map instagramUsername (extractPages e))))"

text \<open>The part \<open>config.meta\<close> of the exported configuration that the services read.\<close>

record config =
  verifyToken :: string
  pages :: "page list"
  businessIgUsernames :: "string list"

definition load_config :: "(string \<Rightarrow> string) \<Rightarrow> env \<Rightarrow> config" where
  "load_config trim e =
     \<lparr>verifyToken = env_or_empty e ''META_VERIFY_TOKEN'',
      pages = extractPages e,
      businessIgUsernames = getBusinessIgUsernames trim e\<rparr>"

section \<open>Account registry lookup (facebookService.ts, getPageAccessToken)\<close>

text \<open>
  The optional parameter \<open>pageId?: string\<close> is a \<open>string option\<close>; \<open>if (pageId)\<close>
  holds for a defined, non-empty string. \<open>pages.find\<close> is the first page with that id.
\<close>

definition getPageAccessToken :: "page list \<Rightarrow> string option \<Rightarrow> string" where
  "getPageAccessToken ps pageId =
     (case (case pageId of
              Some i \<Rightarrow> (if i \<noteq> '''' then find (\<lambda>p. page_id p = i) ps else None)
            | None \<Rightarrow> None) of
        Some p \<Rightarrow> pageAccessToken p
      | None \<Rightarrow> (case ps of p # _ \<Rightarrow> pageAccessToken p | [] \<Rightarrow> ''''))"

section \<open>JavaScript values\<close>

text \<open>
  A webhook body is whatever \<open>JSON.parse\<close> produced, and the TypeScript types are not
  checked at run time, so entries are values of \<open>jsval\<close>: the JSON values and
  \<open>undefined\<close>, which is what reading a missing property gives. An object is the
  association list of its own properties (the first binding of a key is the property).
  Numbers are integers, printed in plain decimal as JavaScript prints an integer of
  magnitude below \<open>10\<^sup>2\<^sup>1\<close>: the code tests numbers for truthiness and interpolates
  them into strings, nothing else.
\<close>

datatype jsval =
    JUndefined
  | JNull
  | JBool bool
  | JNum int
  | JStr string
  | JArr "jsval list"
  | JObj "(string \<times> jsval) list"

text \<open>What a \<open>throw\<close> carries: the kind of the exception and its message.\<close>

datatype error = TypeError string | RequestError string | Error string

fun message :: "error \<Rightarrow> string" where
  "message (TypeError m) = m"
| "message (RequestError m) = m"
| "message (Error m) = m"

definition bind_e :: "error + 'a \<Rightarrow> ('a \<Rightarrow> error + 'b) \<Rightarrow> error + 'b" where
  "bind_e m f = (case m of Inl e \<Rightarrow> Inl e | Inr x \<Rightarrow> f x)"

fun js_truthy :: "jsval \<Rightarrow> bool" where
  "js_truthy JUndefined = False"
| "js_truthy JNull = False"
| "js_truthy (JBool b) = b"
| "js_truthy (JNum n) = (n \<noteq> 0)"
| "js_truthy (JStr s) = (s \<noteq> [])"
| "js_truthy (JArr xs) = True"
| "js_truthy (JObj kvs) = True"

text \<open>\<^verbatim>\<open>a || b\<close>\<close>

definition js_or :: "jsval \<Rightarrow> jsval \<Rightarrow> jsval" where
  "js_or a b = (if js_truthy a then a else b)"

text \<open>Decimal digits, for \<open>String(n)\<close> and for reading an array index.\<close>

definition digit_char :: "nat \<Rightarrow> char" where
  "digit_char d = char_of (48 + d)"

fun show_nat :: "nat \<Rightarrow> string" where
  "show_nat n = (if n < 10 then [digit_char n] else show_nat (n div 10) @ [digit_char (n mod 10)])"

declare show_nat.simps [simp del]

definition show_int :: "int \<Rightarrow> string" where
  "show_int i = (if i < 0 then CHR ''-'' # show_nat (nat (- i)) else show_nat (nat i))"

definition is_digit :: "char \<Rightarrow> bool" where
  "is_digit c = (48 \<le> (of_char c :: nat) \<and> (of_char c :: nat) \<le> 57)"

text \<open>A property key is an array index when it is a canonical decimal numeral.\<close>

definition array_index :: "string \<Rightarrow> nat option" where
  "array_index k =
     (if k \<noteq> [] \<and> list_all is_digit k \<and> (k = ''0'' \<or> hd k \<noteq> CHR ''0'')
      then Some (foldl (\<lambda>a c. 10 * a + ((of_char c :: nat) - 48)) 0 k)
      else None)"

text \<open>
  \<^verbatim>\<open>v.k\<close> and \<^verbatim>\<open>v[i]\<close>: reading a property of \<open>undefined\<close> or \<open>null\<close> throws a
  TypeError; an object gives its own property or \<open>undefined\<close>; an array and a string
  have \<open>length\<close> and their indices; every other read gives \<open>undefined\<close>. (The property
  names that the services read are not names of prototype methods.)
\<close>

fun js_get :: "jsval \<Rightarrow> string \<Rightarrow> error + jsval" where
  "js_get JUndefined k =
     Inl (TypeError (''Cannot read properties of undefined (reading '' @ [CHR 0x27] @ k @ [CHR 0x27] @ '')''))"
| "js_get JNull k =
     Inl (TypeError (''Cannot read properties of null (reading '' @ [CHR 0x27] @ k @ [CHR 0x27] @ '')''))"
| "js_get (JObj kvs) k = Inr (case map_of kvs k of Some v \<Rightarrow> v | None \<Rightarrow> JUndefined)"
| "js_get (JArr xs) k =
     Inr (if k = ''length'' then JNum (int (length xs))
          else (case array_index k of
                  Some i \<Rightarrow> (if i < length xs then xs ! i else JUndefined)
                | None \<Rightarrow> JUndefined))"
| "js_get (JStr s) k =
     Inr (if k = ''length'' then JNum (int (length s))
          else (case array_index k of
                  Some i \<Rightarrow> (if i < length s then JStr [s ! i] else JUndefined)
                | None \<Rightarrow> JUndefined))"
| "js_get (JBool b) k = Inr JUndefined"
| "js_get (JNum n) k = Inr JUndefined"

text \<open>\<^verbatim>\<open>v?.k\<close>\<close>

definition js_get_opt :: "jsval \<Rightarrow> string \<Rightarrow> error + jsval" where
  "js_get_opt v k = (if v = JUndefined \<or> v = JNull then Inr JUndefined else js_get v k)"

text \<open>
  \<open>String(v)\<close>, as a template literal and a property key apply it. An object made by
  \<open>JSON.parse\<close>, or by the query parser, whose own properties include \<open>toString\<close> has
  no callable conversion: interpolating it throws a TypeError; so does an array that
  holds such an object, since an array is joined from its elements (\<open>null\<close> and
  \<open>undefined\<close> elements print as nothing).
\<close>



fun js_to_string :: "jsval \<Rightarrow> error + string"
  and js_join :: "jsval list \<Rightarrow> error + string" where
  "js_to_string JUndefined = Inr ''undefined''"
| "js_to_string JNull = Inr ''null''"
| "js_to_string (JBool b) = Inr (if b then ''true'' else ''false'')"
| "js_to_string (JNum n) = Inr (show_int n)"
| "js_to_string (JStr s) = Inr s"
| "js_to_string (JArr xs) = js_join xs"
| "js_to_string (JObj kvs) =
     (if map_of kvs ''toString'' = None then Inr ''[object Object]''
      else Inl (TypeError ''Cannot convert object to primitive value''))"
| "js_join [] = Inr []"
| "js_join (v # rest) =
     bind_e (if v = JUndefined \<or> v = JNull then Inr [] else js_to_string v) (\<lambda>s.
     if rest = [] then Inr s
     else bind_e (js_join rest) (\<lambda>r. Inr (s @ '','' @ r)))"

text \<open>
  A log line that interpolates \<open>v\<close>: the line is not part of the model, the TypeError of
  its interpolation is. \<open>printable v\<close> says that the interpolation of \<open>v\<close> does not throw,
  as is the case for every string, number, boolean, \<open>null\<close> and \<open>undefined\<close>.
\<close>

definition js_log :: "jsval \<Rightarrow> error + unit" where
  "js_log v = bind_e (js_to_string v) (\<lambda>s. Inr ())"

definition printable :: "jsval \<Rightarrow> bool" where
  "printable v = (case js_to_string v of Inr s \<Rightarrow> True | Inl e \<Rightarrow> False)"

text \<open>\<^verbatim>\<open>s.includes(needle)\<close> on a string: \<open>needle\<close> occurs in \<open>s\<close> as a contiguous
  substring.\<close>

fun str_includes :: "string \<Rightarrow> string \<Rightarrow> bool" where
  "str_includes [] needle = (needle = [])"
| "str_includes (c # cs) needle = (prefix needle (c # cs) \<or> str_includes cs needle)"

text \<open>
  \<^verbatim>\<open>commentText.includes(needle)\<close> on a value: the substring test on a string, the
  membership test of \<open>Array.prototype.includes\<close> on an array, and a TypeError on every
  other value (no such method).
\<close>

fun js_includes :: "jsval \<Rightarrow> string \<Rightarrow> error + bool" where
  "js_includes (JStr s) needle = Inr (str_includes s needle)"
| "js_includes (JArr xs) needle = Inr (JStr needle \<in> set xs)"
| "js_includes v needle = Inl (TypeError ''commentText.includes is not a function'')"

text \<open>
  For stating properties: \<open>js_prop v k\<close> is the value of \<^verbatim>\<open>v.k\<close> and \<open>js_prop_opt v k\<close>
  the value of \<^verbatim>\<open>v?.k\<close>, with \<open>undefined\<close> where the read throws.
\<close>

definition js_prop :: "jsval \<Rightarrow> string \<Rightarrow> jsval" where
  "js_prop v k = (case js_get v k of Inr x \<Rightarrow> x | Inl e \<Rightarrow> JUndefined)"

definition js_prop_opt :: "jsval \<Rightarrow> string \<Rightarrow> jsval" where
  "js_prop_opt v k = (case js_get_opt v k of Inr x \<Rightarrow> x | Inl e \<Rightarrow> JUndefined)"

section \<open>Requests to the Graph API\<close>

text \<open>
  \<open>axios.get(url, {params})\<close> is a query to the outside world \<open>net\<close>: it either throws
  (\<open>Inl\<close>: transport error or error status) or gives \<open>response.data\<close>; every request
  is taken to settle, one way or the other. A function that awaits requests returns its
  value together with the requests it issued, in order.
  The parameter \<open>access_token\<close> of a request is \<open>None\<close> when the caller passes
  \<open>undefined\<close> (only the server of \<open>webhook-server.js\<close> can).
\<close>

record request =
  req_url :: string
  req_access_token :: "string option"
  req_fields :: string

type_synonym net = "request \<Rightarrow> error + jsval"

type_synonym 'a io = "(error + 'a) \<times> request list"

definition return_io :: "'a \<Rightarrow> 'a io" where
  "return_io x = (Inr x, [])"

definition lift_io :: "error + 'a \<Rightarrow> 'a io" where
  "lift_io r = (r, [])"

definition await :: "'a \<times> request list \<Rightarrow> 'a io" where
  "await m = (Inr (fst m), snd m)"

definition bind_io :: "'a io \<Rightarrow> ('a \<Rightarrow> 'b io) \<Rightarrow> 'b io" where
  "bind_io m f =
     (case fst m of
        Inl e \<Rightarrow> (Inl e, snd m)
      | Inr x \<Rightarrow> (fst (f x), snd m @ snd (f x)))"

text \<open>\<open>try { ... } catch (error) { logger.error(...); return null; }\<close>\<close>

definition catch_null :: "('a option) io \<Rightarrow> ('a option) io" where
  "catch_null m = (case fst m of Inl e \<Rightarrow> (Inr None, snd m) | Inr r \<Rightarrow> (Inr r, snd m))"

section \<open>The mention record (types, MentionData)\<close>

text \<open>
  Both services build the same record; a field that a service leaves out, or leaves
  unassigned, is \<open>JUndefined\<close>. Fields copied from the payload keep the value found
  there, whatever its type.
\<close>

record MentionData =
  platform :: string
  postId :: jsval
  postUrl :: jsval
  postContent :: jsval
  commentId :: jsval
  commentText :: jsval
  taggerId :: jsval
  taggerName :: jsval
  taggerUsername :: jsval
  taggerProfilePicUrl :: jsval
  mentionedUsername :: string
  timestamp :: jsval

section \<open>Facebook service (facebookService.ts)\<close>

definition FB_GRAPH_URL :: string where
  "FB_GRAPH_URL = ''https://graph.facebook.com/v18.0''"

text \<open>\<open>getFacebookPostDetails\<close>: the value returned and the requests issued. The URL
  is interpolated inside the \<open>try\<close>, before the request: when that throws, the
  \<open>catch\<close> returns null and no request has been issued.\<close>

definition getFacebookPostDetails :: "net \<Rightarrow> jsval \<Rightarrow> string \<Rightarrow> jsval \<times> request list" where
  "getFacebookPostDetails net post accessToken =
     (if accessToken = '''' then (JNull, [])
      else (case js_to_string post of
              Inl e \<Rightarrow> (JNull, [])
            | Inr p \<Rightarrow>
                (let r = \<lparr>req_url = FB_GRAPH_URL @ ''/'' @ p,
                            req_access_token = Some accessToken,
                            req_fields = ''message,permalink_url''\<rparr>
                 in (case net r of Inl e \<Rightarrow> JNull | Inr d \<Rightarrow> d, [r]))))"

text \<open>
  Lines 11 to 22 of \<open>processFacebookWebhook\<close>: \<open>Inr None\<close> is an early
  \<open>return null\<close>, \<open>Inr (Some commentData)\<close> goes on, \<open>Inl\<close> is a throw.
\<close>

definition facebookCommentData :: "jsval \<Rightarrow> error + jsval option" where
  "facebookCommentData entry =
     bind_e (js_get entry ''changes'') (\<lambda>changes.
     if \<not> js_truthy changes then Inr None else
     bind_e (js_get changes ''length'') (\<lambda>len.
     if len = JNum 0 then Inr None else
     bind_e (js_get changes ''0'') (\<lambda>change.
     bind_e (js_get change ''field'') (\<lambda>field.
     if field \<noteq> JStr ''feed'' then Inr None else
     bind_e (js_get change ''value'') (\<lambda>v.
     if \<not> js_truthy v then Inr None else
     bind_e (js_get v ''item'') (\<lambda>item.
     if item \<noteq> JStr ''comment'' then Inr None else Inr (Some v)))))))"

text \<open>
  The loop over \<open>config.meta.businessIgUsernames\<close> (both services): the first
  username \<open>u\<close> with \<^verbatim>\<open>commentText.includes(`@${u}`)\<close>, or the empty string when
  the loop ends without a \<open>break\<close>.
\<close>

fun findUsername :: "string list \<Rightarrow> jsval \<Rightarrow> error + string" where
  "findUsername [] text = Inr ''''"
| "findUsername (username # rest) text =
     bind_e (js_includes text (''@'' @ username)) (\<lambda>hit.
     if hit then Inr username else findUsername rest text)"

text \<open>
  The loop over \<open>config.meta.pages\<close>, entered with an empty \<open>mentionedUsername\<close>: the
  pair \<open>(mentionedUsername, mentionedPageId)\<close> after it.
\<close>

fun findPage :: "page list \<Rightarrow> jsval \<Rightarrow> error + (string \<times> string)" where
  "findPage [] text = Inr ('''', '''')"
| "findPage (p # rest) text =
     bind_e (js_includes text (''@'' @ page_name p)) (\<lambda>byName.
     bind_e (if byName then Inr True else js_includes text (''@['' @ page_id p @ '']'')) (\<lambda>hit.
     if hit
     then Inr ((case instagramUsername p of
                  Some u \<Rightarrow> (if u \<noteq> '''' then u else '''')
                | None \<Rightarrow> ''''),
               page_id p)
     else findPage rest text))"

text \<open>Lines 26 to 48: \<open>(mentionedUsername, mentionedPageId)\<close>.\<close>

definition facebookMention :: "config \<Rightarrow> jsval \<Rightarrow> error + (string \<times> string)" where
  "facebookMention cfg text =
     bind_e (findUsername (businessIgUsernames cfg) text) (\<lambda>mentioned.
     if mentioned = '''' then findPage (pages cfg) text else Inr (mentioned, ''''))"

text \<open>Lines 62 to 76: \<open>(postContent, postUrl)\<close>.\<close>

definition facebookPost :: "config \<Rightarrow> net \<Rightarrow> jsval \<Rightarrow> string \<Rightarrow> (jsval \<times> jsval) io" where
  "facebookPost cfg net post mentionedPage =
     (if js_truthy post then
        (let token = getPageAccessToken (pages cfg) (Some mentionedPage)
         in if token \<noteq> '''' then
              bind_io (await (getFacebookPostDetails net post token)) (\<lambda>postDetails.
              if js_truthy postDetails then
                bind_io (lift_io (js_get postDetails ''message'')) (\<lambda>content.
                bind_io (lift_io (js_get postDetails ''permalink_url'')) (\<lambda>permalink.
                if js_truthy permalink then return_io (content, permalink)
                else bind_io (lift_io (js_to_string post)) (\<lambda>p.
                     return_io (content, JStr (''https://www.facebook.com/'' @ p)))))
              else return_io (JUndefined, JUndefined))
            else return_io (JUndefined, JUndefined))
      else return_io (JUndefined, JUndefined))"

text \<open>The body of the \<open>try\<close> block of \<open>processFacebookWebhook\<close>.\<close>

definition processFacebookWebhook_try :: "config \<Rightarrow> net \<Rightarrow> jsval \<Rightarrow> (MentionData option) io" where
  "processFacebookWebhook_try cfg net entry =
     bind_io (lift_io (facebookCommentData entry)) (\<lambda>found.
     case found of
       None \<Rightarrow> return_io None
     | Some commentData \<Rightarrow>
         bind_io (lift_io (js_get commentData ''message'')) (\<lambda>msg.
         let text = js_or msg (JStr '''') in
         bind_io (lift_io (facebookMention cfg text)) (\<lambda>(mentioned, mentionedPage).
         if mentioned = '''' \<and> mentionedPage = '''' then return_io None else
         bind_io (lift_io (js_get commentData ''comment_id'')) (\<lambda>comment.
         bind_io (lift_io (js_log comment)) (\<lambda>logged.
         bind_io (lift_io (js_get commentData ''from'')) (\<lambda>sender.
         bind_io (lift_io (js_get_opt sender ''name'')) (\<lambda>senderName.
         bind_io (lift_io (js_get commentData ''post_id'')) (\<lambda>post.
         bind_io (facebookPost cfg net post mentionedPage) (\<lambda>(content, link).
         bind_io (lift_io (js_get_opt sender ''id'')) (\<lambda>senderId.
         bind_io (lift_io (js_get entry ''time'')) (\<lambda>time.
         return_io (Some
           \<lparr>platform = ''facebook'',
            postId = js_or post (JStr ''''),
            postUrl = link,
            postContent = content,
            commentId = js_or comment (JStr ''''),
            commentText = text,
            taggerId = js_or senderId (JStr ''''),
            taggerName = js_or senderName (JStr ''''),
            taggerUsername = JUndefined,
            taggerProfilePicUrl = JUndefined,
            mentionedUsername = mentioned,
            timestamp = time\<rparr>))))))))))))"

definition processFacebookWebhook :: "config \<Rightarrow> net \<Rightarrow> jsval \<Rightarrow> (MentionData option) io" where
  "processFacebookWebhook cfg net entry = catch_null (processFacebookWebhook_try cfg net entry)"

section \<open>Instagram service (instagramService.ts)\<close>

definition IG_GRAPH_URL :: string where
  "IG_GRAPH_URL = ''https://graph.facebook.com/v18.0''"

definition getInstagramMediaDetails :: "net \<Rightarrow> jsval \<Rightarrow> string \<Rightarrow> jsval \<times> request list" where
  "getInstagramMediaDetails net media accessToken =
     (if accessToken = '''' then (JNull, [])
      else (case js_to_string media of
              Inl e \<Rightarrow> (JNull, [])
            | Inr m \<Rightarrow>
                (let r = \<lparr>req_url = IG_GRAPH_URL @ ''/'' @ m,
                            req_access_token = Some accessToken,
                            req_fields = ''permalink,caption''\<rparr>
                 in (case net r of Inl e \<Rightarrow> JNull | Inr d \<Rightarrow> d, [r]))))"

definition getInstagramUserDetails :: "net \<Rightarrow> jsval \<Rightarrow> string \<Rightarrow> jsval \<times> request list" where
  "getInstagramUserDetails net user accessToken =
     (if accessToken = '''' then (JNull, [])
      else (case js_to_string user of
              Inl e \<Rightarrow> (JNull, [])
            | Inr u \<Rightarrow>
                (let r = \<lparr>req_url = IG_GRAPH_URL @ ''/'' @ u,
                            req_access_token = Some accessToken,
                            req_fields = ''username,profile_picture_url''\<rparr>
                 in (case net r of Inl e \<Rightarrow> JNull | Inr d \<Rightarrow> d, [r]))))"

text \<open>Lines 146 to 157 of \<open>processInstagramWebhook\<close>.\<close>

definition instagramCommentData :: "jsval \<Rightarrow> error + jsval option" where
  "instagramCommentData entry =
     bind_e (js_get entry ''changes'') (\<lambda>changes.
     if \<not> js_truthy changes then Inr None else
     bind_e (js_get changes ''length'') (\<lambda>len.
     if len = JNum 0 then Inr None else
     bind_e (js_get changes ''0'') (\<lambda>change.
     bind_e (js_get change ''field'') (\<lambda>field.
     if field \<noteq> JStr ''comments'' then Inr None else
     bind_e (js_get change ''value'') (\<lambda>v.
     if \<not> js_truthy v then Inr None else Inr (Some v))))))"

text \<open>
  \<^verbatim>\<open>associatedPage?.pageAccessToken || (pages.length > 0 ? pages[0].pageAccessToken : '')\<close>
\<close>

definition instagramToken :: "config \<Rightarrow> page option \<Rightarrow> string" where
  "instagramToken cfg associatedPage =
     (let own = (case associatedPage of Some p \<Rightarrow> pageAccessToken p | None \<Rightarrow> '''')
      in if own \<noteq> '''' then own
         else (case pages cfg of p # _ \<Rightarrow> pageAccessToken p | [] \<Rightarrow> ''''))"

text \<open>Lines 183 to 199: \<open>(postContent, postUrl)\<close>.\<close>

definition instagramMedia :: "config \<Rightarrow> net \<Rightarrow> page option \<Rightarrow> jsval \<Rightarrow> (jsval \<times> jsval) io" where
  "instagramMedia cfg net associatedPage media =
     (if js_truthy media then
        (let token = instagramToken cfg associatedPage
         in if token \<noteq> '''' then
              bind_io (await (getInstagramMediaDetails net media token)) (\<lambda>mediaDetails.
              if js_truthy mediaDetails then
                bind_io (lift_io (js_get mediaDetails ''caption'')) (\<lambda>caption.
                bind_io (lift_io (js_get mediaDetails ''permalink'')) (\<lambda>permalink.
                return_io (caption, permalink)))
              else return_io (JUndefined, JUndefined))
            else return_io (JUndefined, JUndefined))
      else return_io (JUndefined, JUndefined))"

text \<open>Lines 202 to 219: \<open>(taggerUsername, taggerProfilePicUrl)\<close>.\<close>

definition instagramTagger :: "config \<Rightarrow> net \<Rightarrow> page option \<Rightarrow> jsval \<Rightarrow> (jsval \<times> jsval) io" where
  "instagramTagger cfg net associatedPage sender =
     bind_io (lift_io (js_get_opt sender ''username'')) (\<lambda>senderName.
     let tagger = js_or senderName (JStr '''') in
     bind_io (lift_io (js_get_opt sender ''id'')) (\<lambda>senderId.
     if js_truthy senderId then
       (let token = instagramToken cfg associatedPage
        in if token \<noteq> '''' then
             bind_io (lift_io (js_get sender ''id'')) (\<lambda>user.
             bind_io (await (getInstagramUserDetails net user token)) (\<lambda>taggerDetails.
             if js_truthy taggerDetails then
               bind_io (lift_io (js_get taggerDetails ''username'')) (\<lambda>name.
               bind_io (lift_io (js_get taggerDetails ''profile_picture_url'')) (\<lambda>pic.
               return_io (if js_truthy name then name else tagger, pic)))
             else return_io (tagger, JUndefined)))
           else return_io (tagger, JUndefined))
     else return_io (tagger, JUndefined)))"

text \<open>The body of the \<open>try\<close> block of \<open>processInstagramWebhook\<close>.\<close>

definition processInstagramWebhook_try :: "config \<Rightarrow> net \<Rightarrow> jsval \<Rightarrow> (MentionData option) io" where
  "processInstagramWebhook_try cfg net entry =
     bind_io (lift_io (instagramCommentData entry)) (\<lambda>found.
     case found of
       None \<Rightarrow> return_io None
     | Some commentData \<Rightarrow>
         bind_io (lift_io (js_get commentData ''text'')) (\<lambda>txt.
         let text = js_or txt (JStr '''') in
         bind_io (lift_io (findUsername (businessIgUsernames cfg) text)) (\<lambda>mentioned.
         if mentioned = '''' then return_io None else
         bind_io (lift_io (js_get commentData ''id'')) (\<lambda>comment.
         bind_io (lift_io (js_log comment)) (\<lambda>logged.
         let associatedPage = find (\<lambda>p. instagramUsername p = Some mentioned) (pages cfg) in
         bind_io (lift_io (js_get commentData ''media'')) (\<lambda>mediaObj.
         bind_io (lift_io (js_get_opt mediaObj ''id'')) (\<lambda>media.
         bind_io (instagramMedia cfg net associatedPage media) (\<lambda>(content, link).
         bind_io (lift_io (js_get commentData ''from'')) (\<lambda>sender.
         bind_io (instagramTagger cfg net associatedPage sender) (\<lambda>(tagger, pic).
         bind_io (lift_io (js_get_opt sender ''id'')) (\<lambda>senderId.
         bind_io (lift_io (js_get entry ''time'')) (\<lambda>time.
         return_io (Some
           \<lparr>platform = ''instagram'',
            postId = js_or media (JStr ''''),
            postUrl = link,
            postContent = content,
            commentId = js_or comment (JStr ''''),
            commentText = text,
            taggerId = js_or senderId (JStr ''''),
            taggerName = JUndefined,
            taggerUsername = tagger,
            taggerProfilePicUrl = pic,
            mentionedUsername = mentioned,
            timestamp = time\<rparr>)))))))))))))"

definition processInstagramWebhook :: "config \<Rightarrow> net \<Rightarrow> jsval \<Rightarrow> (MentionData option) io" where
  "processInstagramWebhook cfg net entry = catch_null (processInstagramWebhook_try cfg net entry)"

section \<open>Webhook controller (webhookController.ts)\<close>

text \<open>What a handler sends: \<open>res.status(n).send(b)\<close>, and \<open>res.sendStatus(n)\<close>, whose body
  is the standard text of the status.\<close>

record response =
  status :: nat
  body :: jsval

definition statusText :: "nat \<Rightarrow> string" where
  "statusText n =
     (if n = 200 then ''OK''
      else if n = 400 then ''Bad Request''
      else if n = 403 then ''Forbidden''
      else if n = 404 then ''Not Found''
      else if n = 500 then ''Internal Server Error''
      else show_nat n)"

definition send :: "nat \<Rightarrow> jsval \<Rightarrow> response" where
  "send n b = \<lparr>status = n, body = b\<rparr>"

definition sendStatus :: "nat \<Rightarrow> response" where
  "sendStatus n = \<lparr>status = n, body = JStr (statusText n)\<rparr>"



text \<open>
  What can be observed of a POST handler, in order: the response, an entry handed to a
  mention extractor, a request to the Graph API, a record handed to the notifier; and for
  the server of \<open>webhook-server.js\<close> a change handed to \<open>handleMention\<close> or
  \<open>handleComment\<close>, and a mail handed to the transporter.
\<close>

datatype event =
    Respond response
  | Extract string jsval
  | Fetch request
  | Notify MentionData
  | HandleMention jsval string
  | HandleComment jsval
  | SendMail jsval

text \<open>
  \<open>sendAllNotifications\<close> (notificationService.ts) is not among the sources: it is a
  parameter that tells whether the awaited call throws.
\<close>

type_synonym notifier = "MentionData \<Rightarrow> error option"

text \<open>\<open>for (const entry of v)\<close>: the elements of an array, the characters of a string;
  any other value is not iterable.\<close>

fun js_iterate :: "string \<Rightarrow> jsval \<Rightarrow> error + jsval list" where
  "js_iterate what (JArr xs) = Inr xs"
| "js_iterate what (JStr s) = Inr (map (\<lambda>c. JStr [c]) s)"
| "js_iterate what v = Inl (TypeError (what @ '' is not iterable''))"

text \<open>The loop of \<open>processWebhook\<close> over \<open>payload.entry\<close>, for \<open>payload.object = obj\<close>.\<close>

fun processEntries ::
  "config \<Rightarrow> net \<Rightarrow> notifier \<Rightarrow> string \<Rightarrow> jsval list \<Rightarrow> (error + unit) \<times> event list" where
  "processEntries cfg net notify obj [] = (Inr (), [])"
| "processEntries cfg net notify obj (entry # rest) =
     (let extracted = (if obj = ''page'' then processFacebookWebhook cfg net entry
                       else processInstagramWebhook cfg net entry);
          called = Extract obj entry # map Fetch (snd extracted)
      in case fst extracted of
           Inl e \<Rightarrow> (Inl e, called)
         | Inr None \<Rightarrow>
             (let later = processEntries cfg net notify obj rest
              in (fst later, called @ snd later))
         | Inr (Some mentionData) \<Rightarrow>
             (case notify mentionData of
                Some e \<Rightarrow> (Inl e, called @ [Notify mentionData])
              | None \<Rightarrow>
                  (let later = processEntries cfg net notify obj rest
                   in (fst later, called @ [Notify mentionData] @ snd later))))"

text \<open>The \<open>try\<close> block of \<open>processWebhook\<close> after the response has been sent. Two of
  its log lines interpolate values of the payload: \<^verbatim>\<open>payload.entry?.length || 0\<close> before the
  loop, and \<open>payload.object\<close> when the object is not supported.\<close>

definition processWebhook_try ::
  "config \<Rightarrow> net \<Rightarrow> notifier \<Rightarrow> jsval \<Rightarrow> (error + unit) \<times> event list" where
  "processWebhook_try cfg net notify payload =
     (case js_get payload ''object'' of
        Inl e \<Rightarrow> (Inl e, [])
      | Inr obj \<Rightarrow>
          if obj = JStr ''page'' \<or> obj = JStr ''instagram'' then
            (case bind_e (js_get payload ''entry'') (\<lambda>entries.
                  bind_e (js_get_opt entries ''length'') (\<lambda>len.
                  bind_e (js_log (js_or len (JNum 0))) (\<lambda>logged.
                  js_iterate ''payload.entry'' entries))) of
               Inl e \<Rightarrow> (Inl e, [])
             | Inr entries \<Rightarrow>
                 processEntries cfg net notify
                   (if obj = JStr ''page'' then ''page'' else ''instagram'') entries)
          else (js_log obj, []))"

text \<open>\<open>processWebhook\<close>: the response first, then the \<open>try\<close> block, whose exception is
  logged.\<close>

definition processWebhook :: "config \<Rightarrow> net \<Rightarrow> notifier \<Rightarrow> jsval \<Rightarrow> event list" where
  "processWebhook cfg net notify payload =
     Respond (send 200 (JStr ''EVENT_RECEIVED'')) # snd (processWebhook_try cfg net notify payload)"

section \<open>The single-file server (webhook-server.js)\<close>

text \<open>
  The repository also holds an earlier server in one file. Its two registries are the
  state that \<open>initializePageConfigurations\<close> leaves behind: \<open>instagramAccounts\<close>, keyed by
  the lower-cased Instagram username, and \<open>facebookPages\<close>, keyed by the page id, each
  listed in the order of \<open>Object.keys\<close>. A name, or a token, is \<open>None\<close> when its
  environment variable is not set.
\<close>

record igAccount =
  acc_pageId :: string
  acc_token :: "string option"
  acc_name :: "string option"

record fbPage =
  fb_name :: "string option"
  fb_token :: "string option"

record registry =
  instagramAccounts :: "(string \<times> igAccount) list"
  facebookPages :: "(string \<times> fbPage) list"

text \<open>
  A registry is a plain object, so reading \<^verbatim>\<open>registry[key]\<close> finds the own entry of the
  key or, for the name of a property of \<open>Object.prototype\<close>, an inherited value that is
  truthy and has no \<open>token\<close>; otherwise \<open>undefined\<close>.
\<close>

definition objectPrototypeKeys :: "string list" where
  "objectPrototypeKeys =
     [''constructor'', ''__defineGetter__'', ''__defineSetter__'', ''hasOwnProperty'',
      ''__lookupGetter__'', ''__lookupSetter__'', ''isPrototypeOf'', ''propertyIsEnumerable'',
      ''toString'', ''valueOf'', ''__proto__'', ''toLocaleString'']"

datatype 'a property = Own 'a | Inherited | Absent

definition js_lookup :: "(string \<times> 'a) list \<Rightarrow> string \<Rightarrow> 'a property" where
  "js_lookup table key =
     (case map_of table key of
        Some entry \<Rightarrow> Own entry
      | None \<Rightarrow> if key \<in> set objectPrototypeKeys then Inherited else Absent)"


text \<open>\<open>s.toLowerCase()\<close> on the letters A to Z, and the call on a value: a TypeError when
  the value is not a string. The strings here are byte strings; JavaScript also
  lower-cases letters outside ASCII, which \<open>toLowerCase\<close> leaves as they are, so it is
  exact on ASCII text only.\<close>

definition lower_char :: "char \<Rightarrow> char" where
  "lower_char c =
     (if 65 \<le> (of_char c :: nat) \<and> (of_char c :: nat) \<le> 90 then char_of ((of_char c :: nat) + 32)
      else c)"

definition toLowerCase :: "string \<Rightarrow> string" where
  "toLowerCase s = map lower_char s"

fun js_toLowerCase :: "string \<Rightarrow> jsval \<Rightarrow> error + string" where
  "js_toLowerCase what (JStr s) = Inr (toLowerCase s)"
| "js_toLowerCase what JUndefined =
     Inl (TypeError (''Cannot read properties of undefined (reading '' @ [CHR 0x27]
                       @ ''toLowerCase'' @ [CHR 0x27] @ '')''))"
| "js_toLowerCase what JNull =
     Inl (TypeError (''Cannot read properties of null (reading '' @ [CHR 0x27]
                       @ ''toLowerCase'' @ [CHR 0x27] @ '')''))"
| "js_toLowerCase what v = Inl (TypeError (what @ ''.toLowerCase is not a function''))"

text \<open>\<^verbatim>\<open>{...target, ...source}\<close>: the properties of \<open>source\<close> are assigned in order.\<close>

fun obj_assign :: "(string \<times> jsval) list \<Rightarrow> (string \<times> jsval) list \<Rightarrow> (string \<times> jsval) list" where
  "obj_assign target [] = target"
| "obj_assign target ((k, v) # rest) = obj_assign (AList.update k v target) rest"

text \<open>The object that the \<open>catch\<close> of a details function returns.\<close>

definition detailsError :: "error \<Rightarrow> (string \<times> jsval) list" where
  "detailsError e = [(''error'', JStr ''Could not fetch post details''),
                     (''errorMessage'', JStr (message e))]"

text \<open>\<^verbatim>\<open>data.attachments?.data[0]?.k\<close>\<close>

definition firstAttachment :: "jsval \<Rightarrow> string \<Rightarrow> error + jsval" where
  "firstAttachment d k =
     bind_e (js_get d ''attachments'') (\<lambda>a.
     if a = JUndefined \<or> a = JNull then Inr JUndefined else
     bind_e (js_get a ''data'') (\<lambda>items.
     bind_e (js_get items ''0'') (\<lambda>item.
     js_get_opt item k)))"

text \<open>The object literal that \<open>getFacebookPostDetails\<close> builds from \<open>response.data\<close>.\<close>

definition legacyFacebookFields :: "jsval \<Rightarrow> error + (string \<times> jsval) list" where
  "legacyFacebookFields d =
     bind_e (js_get d ''message'') (\<lambda>msg.
     bind_e (js_get d ''permalink_url'') (\<lambda>link.
     bind_e (js_get d ''created_time'') (\<lambda>created.
     bind_e (js_get d ''from'') (\<lambda>sender.
     bind_e (js_get_opt sender ''name'') (\<lambda>senderName.
     bind_e (js_get_opt sender ''picture'') (\<lambda>picture.
     bind_e (js_get_opt picture ''data'') (\<lambda>pictureData.
     bind_e (js_get_opt pictureData ''url'') (\<lambda>pictureUrl.
     bind_e (firstAttachment d ''type'') (\<lambda>kind.
     bind_e (firstAttachment d ''url'') (\<lambda>mediaLink.
     Inr [(''postMessage'', js_or msg (JStr '''')),
          (''postUrl'', link),
          (''postCreatedTime'', created),
          (''fromUser'', js_or senderName (JStr ''Unknown'')),
          (''fromUserPicture'', js_or pictureUrl (JStr '''')),
          (''mediaType'', js_or kind (JStr ''none'')),
          (''mediaUrl'', js_or mediaLink (JStr ''''))]))))))))))"

text \<open>
  \<open>getFacebookPostDetails\<close> of \<open>webhook-server.js\<close>: the request is issued whatever the
  token is, once the URL has been interpolated (a throw there is caught like a failure
  of the request); the result is an object in every branch.
\<close>

definition legacyGetFacebookPostDetails ::
  "net \<Rightarrow> jsval \<Rightarrow> string option \<Rightarrow> (string \<times> jsval) list \<times> request list" where
  "legacyGetFacebookPostDetails net post accessToken =
     (case js_to_string post of
        Inl e \<Rightarrow> (detailsError e, [])
      | Inr p \<Rightarrow>
          (let r = \<lparr>req_url = ''https://graph.facebook.com/v19.0/'' @ p,
                      req_access_token = accessToken,
                      req_fields = ''id,message,permalink_url,created_time,from{id,name,picture},attachments''\<rparr>
           in (case bind_e (net r) legacyFacebookFields of
                 Inl e \<Rightarrow> detailsError e
               | Inr built \<Rightarrow> built,
               [r])))"

definition legacyInstagramFields :: "jsval \<Rightarrow> error + (string \<times> jsval) list" where
  "legacyInstagramFields d =
     bind_e (js_get d ''caption'') (\<lambda>caption.
     bind_e (js_get d ''permalink'') (\<lambda>link.
     bind_e (js_get d ''timestamp'') (\<lambda>created.
     bind_e (js_get d ''username'') (\<lambda>user.
     bind_e (js_get d ''media_type'') (\<lambda>kind.
     bind_e (js_toLowerCase ''response.data.media_type'' kind) (\<lambda>kindLower.
     bind_e (js_get d ''media_url'') (\<lambda>mediaLink.
     Inr [(''postMessage'', js_or caption (JStr '''')),
          (''postUrl'', link),
          (''postCreatedTime'', created),
          (''fromUser'', js_or user (JStr ''Unknown'')),
          (''mediaType'', JStr kindLower),
          (''mediaUrl'', js_or mediaLink (JStr ''''))])))))))"

definition legacyGetInstagramPostDetails ::
  "net \<Rightarrow> jsval \<Rightarrow> string option \<Rightarrow> (string \<times> jsval) list \<times> request list" where
  "legacyGetInstagramPostDetails net media accessToken =
     (case js_to_string media of
        Inl e \<Rightarrow> (detailsError e, [])
      | Inr m \<Rightarrow>
          (let r = \<lparr>req_url = ''https://graph.facebook.com/v19.0/'' @ m,
                      req_access_token = accessToken,
                      req_fields = ''id,caption,permalink,timestamp,username,media_type,media_url''\<rparr>
           in (case bind_e (net r) legacyInstagramFields of
                 Inl e \<Rightarrow> detailsError e
               | Inr built \<Rightarrow> built,
               [r])))"

text \<open>
  \<open>sendMentionEmail\<close>. \<open>mailText\<close> is what can throw while subject and body are
  composed, in the order of the source: \<open>charAt\<close> on the platform and on the mention
  type, which must be strings, and the interpolation of the other fields (\<open>new Date\<close>
  converts its argument as an interpolation does). When nothing throws,
  \<open>transporter.sendMail\<close> is called: the mail is a function of \<open>mentionInfo\<close> and of the
  clock, and a failure of the transport is caught. When something throws, the \<open>catch\<close>
  logs it and no mail is sent.
\<close>

fun js_charAt :: "string \<Rightarrow> jsval \<Rightarrow> error + unit" where
  "js_charAt what (JStr s) = Inr ()"
| "js_charAt what JUndefined =
     Inl (TypeError (''Cannot read properties of undefined (reading '' @ [CHR 0x27]
                       @ ''charAt'' @ [CHR 0x27] @ '')''))"
| "js_charAt what JNull =
     Inl (TypeError (''Cannot read properties of null (reading '' @ [CHR 0x27]
                       @ ''charAt'' @ [CHR 0x27] @ '')''))"
| "js_charAt what v = Inl (TypeError (what @ ''.charAt is not a function''))"

definition mailText :: "(string \<times> jsval) list \<Rightarrow> error + unit" where
  "mailText mentionInfo =
     (let info = (\<lambda>k. js_prop (JObj mentionInfo) k);
          mentionType = js_or (info ''mentionType'') (JStr ''post'')
      in bind_e (js_charAt ''mentionInfo.platform'' (info ''platform'')) (\<lambda>capital.
         bind_e (js_log mentionType) (\<lambda>logged.
         bind_e (js_log (js_or (info ''mentionedUsername'') (JStr ''your account''))) (\<lambda>logged.
         bind_e (js_log (js_or (info ''postCreatedTime'') (info ''timestamp''))) (\<lambda>logged.
         bind_e (js_log (info ''fromUser'')) (\<lambda>logged.
         bind_e (js_charAt ''mentionType'' mentionType) (\<lambda>capital.
         bind_e (js_log (info ''postMessage'')) (\<lambda>logged.
         bind_e (if info ''mediaType'' \<noteq> JStr ''none'' then js_log (info ''mediaType'')
                 else Inr ()) (\<lambda>logged.
         js_log (info ''postUrl''))))))))))"

definition sendMentionEmail :: "(string \<times> jsval) list \<Rightarrow> event list" where
  "sendMentionEmail mentionInfo =
     (case mailText mentionInfo of
        Inl e \<Rightarrow> []
      | Inr composed \<Rightarrow> [SendMail (JObj mentionInfo)])"

text \<open>
  The callback of \<open>some\<close> and \<open>find\<close> in \<open>handleComment\<close>, run over the monitored
  accounts in order:
  \<^verbatim>\<open>commentInfo.message.toLowerCase().includes(`@${username.toLowerCase()}`)\<close>.
\<close>

fun findAccount :: "string list \<Rightarrow> jsval \<Rightarrow> error + string option" where
  "findAccount [] msg = Inr None"
| "findAccount (username # rest) msg =
     bind_e (js_toLowerCase ''commentInfo.message'' msg) (\<lambda>lowered.
     if str_includes lowered (''@'' @ toLowerCase username) then Inr (Some username)
     else findAccount rest msg)"

text \<open>The \<open>try\<close> block of \<open>handleComment\<close>; \<open>now\<close> is \<open>new Date().toISOString()\<close>.\<close>

definition handleComment_try :: "registry \<Rightarrow> net \<Rightarrow> string \<Rightarrow> jsval \<Rightarrow> (error + unit) \<times> event list" where
  "handleComment_try reg net now d =
     (case
        bind_e (js_get d ''from'') (\<lambda>sender.
        bind_e (js_get_opt sender ''instagram_id'') (\<lambda>igId.
        bind_e (js_get d ''id'') (\<lambda>comment.
        bind_e (js_get d ''post_id'') (\<lambda>post.
        bind_e (js_get d ''media_id'') (\<lambda>media.
        bind_e (js_get d ''created_time'') (\<lambda>created.
        bind_e (js_get d ''message'') (\<lambda>msg.
        bind_e (js_get d ''text'') (\<lambda>txt.
        let commentInfo =
              [(''platform'', JStr (if js_truthy igId then ''instagram'' else ''facebook'')),
               (''commentId'', comment),
               (''postId'', js_or post media),
               (''timestamp'', js_or created (JStr now)),
               (''message'', js_or msg txt)];
            monitoredAccounts = map fst (instagramAccounts reg)
        in
        bind_e (findAccount monitoredAccounts (js_or msg txt)) (\<lambda>containsMention.
        if containsMention = None then Inr None else
        bind_e (findAccount monitoredAccounts (js_or msg txt)) (\<lambda>mentionedAccount.
        case mentionedAccount of
          None \<Rightarrow> Inr None
        | Some account \<Rightarrow>
            if account = '''' then Inr None else
            (case js_lookup (instagramAccounts reg) (toLowerCase account) of
               Absent \<Rightarrow> Inl (TypeError (''Cannot read properties of undefined (reading ''
                                            @ [CHR 0x27] @ ''token'' @ [CHR 0x27] @ '')''))
             | Inherited \<Rightarrow>
                 Inr (Some (commentInfo, js_truthy igId, js_or post media, account, None))
             | Own accountInfo \<Rightarrow>
                 Inr (Some (commentInfo, js_truthy igId, js_or post media, account,
                            acc_token accountInfo)))))))))))))
      of
        Inl e \<Rightarrow> (Inl e, [])
      | Inr None \<Rightarrow> (Inr (), [])
      | Inr (Some (commentInfo, onInstagram, post, account, token)) \<Rightarrow>
          (let details = (if onInstagram then legacyGetInstagramPostDetails net post token
                          else legacyGetFacebookPostDetails net post token)
           in (Inr (),
               map Fetch (snd details) @
               sendMentionEmail
                 (obj_assign (obj_assign commentInfo (fst details))
                    [(''mentionType'', JStr ''comment''), (''mentionedUsername'', JStr account)]))))"

text \<open>\<open>handleComment\<close>: the exception of the \<open>try\<close> block is logged.\<close>

definition handleComment :: "registry \<Rightarrow> net \<Rightarrow> string \<Rightarrow> jsval \<Rightarrow> event list" where
  "handleComment reg net now d = HandleComment d # snd (handleComment_try reg net now d)"

text \<open>The \<open>try\<close> block of \<open>handleMention\<close>.\<close>

definition handleMention_try ::
  "registry \<Rightarrow> net \<Rightarrow> string \<Rightarrow> jsval \<Rightarrow> string \<Rightarrow> (error + unit) \<times> event list" where
  "handleMention_try reg net now d plat =
     (let mentionInfo = [(''platform'', JStr plat), (''timestamp'', JStr now)] in
      if plat = ''facebook'' then
        (case
           bind_e (js_get d ''page_id'') (\<lambda>pageId.
           bind_e (js_get d ''post_id'') (\<lambda>post.
           bind_e (js_get d ''sender_id'') (\<lambda>sender.
           bind_e (js_to_string pageId) (\<lambda>key.
           let pageToken = (case js_lookup (facebookPages reg) key of
                              Own pg \<Rightarrow> fb_token pg
                            | Inherited \<Rightarrow> None
                            | Absent \<Rightarrow> None)
           in if pageToken = None \<or> pageToken = Some '''' then
                Inl (Error (''No token found for Facebook page '' @ key))
              else Inr (obj_assign mentionInfo
                          [(''pageId'', pageId), (''postId'', post), (''userId'', sender)],
                        post, pageToken)))))
         of
           Inl e \<Rightarrow> (Inl e, [])
         | Inr (info, post, token) \<Rightarrow>
             (let details = legacyGetFacebookPostDetails net post token
              in (Inr (), map Fetch (snd details) @ sendMentionEmail (obj_assign info (fst details)))))
      else if plat = ''instagram'' then
        (case
           bind_e (js_get d ''media_id'') (\<lambda>media.
           bind_e (js_get d ''mentioned_username'') (\<lambda>mentioned.
           bind_e (js_toLowerCase ''mentionInfo.mentionedUsername'' mentioned) (\<lambda>key.
           let info = obj_assign mentionInfo
                        [(''mediaId'', media), (''mentionedUsername'', mentioned)]
           in case js_lookup (instagramAccounts reg) key of
                Absent \<Rightarrow>
                  bind_e (js_to_string mentioned) (\<lambda>name.
                  Inl (Error (''No configuration found for Instagram account '' @ name)))
              | Inherited \<Rightarrow> Inr (info, media, None)
              | Own accountInfo \<Rightarrow> Inr (info, media, acc_token accountInfo))))
         of
           Inl e \<Rightarrow> (Inl e, [])
         | Inr (info, media, token) \<Rightarrow>
             (let details = legacyGetInstagramPostDetails net media token
              in (Inr (), map Fetch (snd details) @ sendMentionEmail (obj_assign info (fst details)))))
      else (Inr (), sendMentionEmail mentionInfo))"

definition handleMention :: "registry \<Rightarrow> net \<Rightarrow> string \<Rightarrow> jsval \<Rightarrow> string \<Rightarrow> event list" where
  "handleMention reg net now d plat =
     HandleMention d plat # snd (handleMention_try reg net now d plat)"

text \<open>The loop over \<open>entry.changes\<close> in \<open>app.post('/webhook')\<close>: every change is
  dispatched on its field.\<close>

fun legacyChanges ::
  "registry \<Rightarrow> net \<Rightarrow> string \<Rightarrow> jsval list \<Rightarrow> (error + unit) \<times> event list" where
  "legacyChanges reg net now [] = (Inr (), [])"
| "legacyChanges reg net now (change # rest) =
     (case bind_e (js_get change ''field'') (\<lambda>field.
           bind_e (js_get change ''value'') (\<lambda>v. Inr (field, v))) of
        Inl e \<Rightarrow> (Inl e, [])
      | Inr (field, v) \<Rightarrow>
          (let handled =
                 (if field = JStr ''mention'' then handleMention reg net now v ''facebook''
                  else if field = JStr ''mentions'' then handleMention reg net now v ''instagram''
                  else if field = JStr ''comments'' then handleComment reg net now v
                  else []);
               later = legacyChanges reg net now rest
           in (fst later, handled @ snd later)))"

text \<open>The body of the loop over \<open>body.entry\<close>: a \<open>try\<close> whose exception is logged.\<close>

definition legacyEntry :: "registry \<Rightarrow> net \<Rightarrow> string \<Rightarrow> jsval \<Rightarrow> event list" where
  "legacyEntry reg net now entry =
     (case js_get entry ''changes'' of
        Inl e \<Rightarrow> []
      | Inr changes \<Rightarrow>
          if js_truthy changes then
            (case js_iterate ''entry.changes'' changes of
               Inl e \<Rightarrow> []
             | Inr cs \<Rightarrow> snd (legacyChanges reg net now cs))
          else [])"

text \<open>
  \<open>app.post('/webhook')\<close> of \<open>webhook-server.js\<close>. The handler has no \<open>try\<close> of its
  own: an exception outside the loop body (\<open>Inl\<close>) leaves the request without a response.
\<close>

definition legacyPost :: "registry \<Rightarrow> net \<Rightarrow> string \<Rightarrow> jsval \<Rightarrow> (error + unit) \<times> event list" where
  "legacyPost reg net now b =
     (case js_get b ''object'' of
        Inl e \<Rightarrow> (Inl e, [])
      | Inr obj \<Rightarrow>
          if obj = JStr ''page'' \<or> obj = JStr ''instagram'' then
            (case bind_e (js_get b ''entry'') (js_iterate ''body.entry'') of
               Inl e \<Rightarrow> (Inl e, [])
             | Inr entries \<Rightarrow>
                 (Inr (), concat (map (legacyEntry reg net now) entries)
                          @ [Respond (send 200 (JStr ''EVENT_RECEIVED''))]))
          else (Inr (), [Respond (sendStatus 404)]))"

section \<open>Vocabulary of the claims\<close>

text \<open>
  The identifiers looked for in a comment text: \<open>@username\<close> for each configured
  business Instagram username, and \<open>@PageName\<close> and \<open>@[pageId]\<close> for each configured
  page (Facebook only).
\<close>

definition usernameNeedles :: "config \<Rightarrow> string list" where
  "usernameNeedles cfg = map (\<lambda>u. ''@'' @ u) (businessIgUsernames cfg)"

definition pageNeedles :: "config \<Rightarrow> string list" where
  "pageNeedles cfg =
     concat (map (\<lambda>p. [''@'' @ page_name p, ''@['' @ page_id p @ '']'']) (pages cfg))"

text \<open>\<^verbatim>\<open>entry.changes[0]\<close>, and the comment text each service takes from it:
  \<^verbatim>\<open>change.value.message || ''\<close> and \<^verbatim>\<open>change.value.text || ''\<close>.\<close>

definition firstChange :: "jsval \<Rightarrow> jsval" where
  "firstChange entry = js_prop (js_prop entry ''changes'') ''0''"

definition facebookText :: "jsval \<Rightarrow> jsval" where
  "facebookText entry = js_or (js_prop (js_prop (firstChange entry) ''value'') ''message'') (JStr '''')"

definition instagramText :: "jsval \<Rightarrow> jsval" where
  "instagramText entry = js_or (js_prop (js_prop (firstChange entry) ''value'') ''text'') (JStr '''')"

text \<open>The events of a trace, by kind.\<close>

fun isRespond :: "event \<Rightarrow> bool" where
  "isRespond (Respond r) = True"
| "isRespond ev = False"

fun isFetch :: "event \<Rightarrow> bool" where
  "isFetch (Fetch r) = True"
| "isFetch ev = False"

fun isSendMail :: "event \<Rightarrow> bool" where
  "isSendMail (SendMail m) = True"
| "isSendMail ev = False"

definition acknowledgment :: event where
  "acknowledgment = Respond (send 200 (JStr ''EVENT_RECEIVED''))"

section \<open>Example inputs\<close>

text \<open>An environment with two complete pages (the first with a linked Instagram
  username) and one page id without name and token.\<close>

definition env0 :: env where
  "env0 = [(''PAGE_ID_2'', ''222''), (''PAGE_NAME_2'', ''Beta''), (''PAGE_TOKEN_2'', ''tokB''),
           (''PAGE_ID_1'', ''111''), (''PAGE_NAME_1'', ''Acme''), (''PAGE_TOKEN_1'', ''tokA''),
           (''PAGE_IG_USERNAME_1'', ''acme''), (''PAGE_ID_3'', ''333''),
           (''META_VERIFY_TOKEN'', ''secret'')]"

definition pageAcme :: page where
  "pageAcme = \<lparr>page_id = ''111'', page_name = ''Acme'', pageAccessToken = ''tokA'',
               instagramUsername = Some ''acme''\<rparr>"

definition pageBeta :: page where
  "pageBeta = \<lparr>page_id = ''222'', page_name = ''Beta'', pageAccessToken = ''tokB'',
               instagramUsername = None\<rparr>"

text \<open>The configuration loaded from \<open>env0\<close>, with two monitored usernames instead of
  one.\<close>

definition cfg0 :: config where
  "cfg0 = \<lparr>verifyToken = ''secret'', pages = [pageAcme, pageBeta],
           businessIgUsernames = [''acme'', ''acme_shop'']\<rparr>"

definition cfg1 :: config where
  "cfg1 = \<lparr>verifyToken = ''secret'', pages = [pageAcme, pageBeta],
           businessIgUsernames = [''zeta'', ''acme'', ''acme_shop'']\<rparr>"

text \<open>A world in which every request succeeds with the same post.\<close>

definition net0 :: net where
  "net0 = (\<lambda>r. Inr (JObj [(''message'', JStr ''Our new post''),
                           (''permalink_url'', JStr ''https://fb.example/p/1''),
                           (''permalink'', JStr ''https://ig.example/p/1''),
                           (''caption'', JStr ''Our new post'')]))"

definition notify0 :: notifier where
  "notify0 = (\<lambda>m. None)"

text \<open>A Facebook comment change and the entry that carries it.\<close>

definition fbCommentOf :: "jsval \<Rightarrow> jsval" where
  "fbCommentOf msg =
     JObj [(''field'', JStr ''feed''),
           (''value'', JObj [(''item'', JStr ''comment''),
                             (''comment_id'', JStr ''c1''),
                             (''post_id'', JStr ''111_1''),
                             (''message'', msg),
                             (''from'', JObj [(''id'', JStr ''u1''), (''name'', JStr ''Ann'')])])]"

definition fbComment :: "string \<Rightarrow> jsval" where
  "fbComment msg = fbCommentOf (JStr msg)"

definition igCommentOf :: "jsval \<Rightarrow> jsval" where
  "igCommentOf msg =
     JObj [(''field'', JStr ''comments''),
           (''value'', JObj [(''id'', JStr ''c2''),
                             (''text'', msg),
                             (''media'', JObj [(''id'', JStr ''m1'')]),
                             (''from'', JObj [(''username'', JStr ''ann'')])])]"

definition igComment :: "string \<Rightarrow> jsval" where
  "igComment msg = igCommentOf (JStr msg)"

definition otherChange :: jsval where
  "otherChange = JObj [(''field'', JStr ''likes''), (''value'', JObj [(''item'', JStr ''like'')])]"

definition entryOf :: "jsval list \<Rightarrow> jsval" where
  "entryOf changes = JObj [(''id'', JStr ''111''), (''time'', JNum 1700000000),
                           (''changes'', JArr changes)]"

text \<open>An object with an own \<open>toString\<close> property that is not a function, as the JSON text
  \<open>{"toString": "x"}\<close> and the query string \<open>hub.challenge[toString]=x\<close> parse to, and
  comment changes that carry a given comment id.\<close>

definition unprintable :: jsval where
  "unprintable = JObj [(''toString'', JStr ''x'')]"

definition fbCommentId :: "jsval \<Rightarrow> string \<Rightarrow> jsval" where
  "fbCommentId cid msg =
     JObj [(''field'', JStr ''feed''),
           (''value'', JObj [(''item'', JStr ''comment''),
                             (''comment_id'', cid),
                             (''post_id'', JStr ''111_1''),
                             (''message'', JStr msg),
                             (''from'', JObj [(''id'', JStr ''u1''), (''name'', JStr ''Ann'')])])]"

definition igCommentId :: "jsval \<Rightarrow> string \<Rightarrow> jsval" where
  "igCommentId cid msg =
     JObj [(''field'', JStr ''comments''),
           (''value'', JObj [(''id'', cid),
                             (''text'', JStr msg),
                             (''media'', JObj [(''id'', JStr ''m1'')]),
                             (''from'', JObj [(''username'', JStr ''ann'')])])]"

text \<open>Registries of the single-file server for the environment \<open>env0\<close>, a clock
  reading, and a webhook body.\<close>

definition reg0 :: registry where
  "reg0 = \<lparr>instagramAccounts =
              [(''acme'', \<lparr>acc_pageId = ''111'', acc_token = Some ''tokA'',
                          acc_name = Some ''Acme''\<rparr>)],
            facebookPages =
              [(''111'', \<lparr>fb_name = Some ''Acme'', fb_token = Some ''tokA''\<rparr>),
               (''222'', \<lparr>fb_name = Some ''Beta'', fb_token = Some ''tokB''\<rparr>)]\<rparr>"

definition now0 :: string where
  "now0 = ''2024-01-01T00:00:00.000Z''"

definition bodyOf :: "string \<Rightarrow> jsval list \<Rightarrow> jsval" where
  "bodyOf obj entries = JObj [(''object'', JStr obj), (''entry'', JArr entries)]"


section \<open>Properties of the configuration\<close>

lemma pageForKey_fields:
  "p \<in> set (pageForKey e k) \<Longrightarrow>
     page_id p \<noteq> '''' \<and> page_name p \<noteq> '''' \<and> pageAccessToken p \<noteq> ''''"
  by (auto simp: pageForKey_def Let_def split: if_splits)

lemma pushPages_fields:
  "p \<in> set (pushPages e ks) \<Longrightarrow>
     page_id p \<noteq> '''' \<and> page_name p \<noteq> '''' \<and> pageAccessToken p \<noteq> ''''"
  by (induction ks) (auto dest: pageForKey_fields)

lemma extractPages_fields:
  "p \<in> set (extractPages e) \<Longrightarrow>
     page_id p \<noteq> '''' \<and> page_name p \<noteq> '''' \<and> pageAccessToken p \<noteq> ''''"
  unfolding extractPages_def by (rule pushPages_fields)

lemma find_Some_mem: "find P xs = Some x \<Longrightarrow> x \<in> set xs \<and> P x"
  by (induction xs) (auto split: if_splits)

lemma find_None_all: "find P xs = None \<longleftrightarrow> (\<forall>x \<in> set xs. \<not> P x)"
  by (induction xs) auto

lemma getPageAccessToken_fallback:
  "pageId = None \<or> pageId = Some [] \<or> (\<forall>p \<in> set ps. Some (page_id p) \<noteq> pageId) \<Longrightarrow>
     getPageAccessToken ps pageId = (case ps of p # _ \<Rightarrow> pageAccessToken p | [] \<Rightarrow> [])"
  by (cases pageId) (auto simp: getPageAccessToken_def find_None_all[THEN iffD2])

lemma getPageAccessToken_found:
  "i \<noteq> [] \<Longrightarrow> find (\<lambda>p. page_id p = i) ps = Some p \<Longrightarrow>
     getPageAccessToken ps (Some i) = pageAccessToken p"
  by (simp add: getPageAccessToken_def)

lemma getPageAccessToken_cases:
  "ps \<noteq> [] \<Longrightarrow> \<exists>p \<in> set ps. getPageAccessToken ps pageId = pageAccessToken p"
proof -
  assume ne: "ps \<noteq> []"
  then obtain q qs where ps: "ps = q # qs" by (cases ps) auto
  show ?thesis
  proof (cases "\<exists>i p. pageId = Some i \<and> i \<noteq> [] \<and> find (\<lambda>p. page_id p = i) ps = Some p")
    case True
    then obtain i p where h: "pageId = Some i" "i \<noteq> []" "find (\<lambda>p. page_id p = i) ps = Some p"
      by blast
    from h(3) have "p \<in> set ps" by (auto dest: find_Some_mem)
    moreover from h have "getPageAccessToken ps pageId = pageAccessToken p"
      by (simp add: getPageAccessToken_found)
    ultimately show ?thesis by blast
  next
    case False
    then have "pageId = None \<or> pageId = Some [] \<or> (\<forall>p \<in> set ps. Some (page_id p) \<noteq> pageId)"
      by (cases pageId) (auto simp: find_None_all)
    then have "getPageAccessToken ps pageId = pageAccessToken q"
      by (simp add: getPageAccessToken_fallback ps)
    then show ?thesis by (auto simp: ps)
  qed
qed


section \<open>Properties of the JavaScript operations and of the extractors\<close>

lemma bind_e_Inl [simp]: "bind_e (Inl e) f = Inl e"
  and bind_e_Inr [simp]: "bind_e (Inr x) f = f x"
  by (simp_all add: bind_e_def)

lemma bind_io_lift_Inr [simp]: "bind_io (lift_io (Inr x)) f = f x"
  and bind_io_lift_Inl [simp]: "bind_io (lift_io (Inl e)) f = (Inl e, [])"
  and bind_io_return [simp]: "bind_io (return_io x) f = f x"
  and bind_io_await [simp]: "bind_io (await (v, t)) f = (fst (f v), t @ snd (f v))"
  by (simp_all add: bind_io_def lift_io_def return_io_def await_def)

lemma catch_null_simps [simp]:
  "catch_null (Inl e, t) = (Inr None, t)"
  "catch_null (Inr r, t) = (Inr r, t)"
  by (simp_all add: catch_null_def)

lemma js_get_defined: "v \<noteq> JUndefined \<Longrightarrow> v \<noteq> JNull \<Longrightarrow> js_get v k = Inr (js_prop v k)"
  by (cases v) (auto simp: js_prop_def)

lemma js_truthy_defined: "js_truthy v \<Longrightarrow> v \<noteq> JUndefined \<and> v \<noteq> JNull"
  by (cases v) auto

lemma js_get_truthy: "js_truthy v \<Longrightarrow> js_get v k = Inr (js_prop v k)"
  by (simp add: js_get_defined js_truthy_defined)

lemma js_get_Inr: "js_get v k = Inr x \<Longrightarrow> x = js_prop v k \<and> v \<noteq> JUndefined \<and> v \<noteq> JNull"
  by (cases v) (auto simp: js_prop_def)

lemma js_get_opt_total: "js_get_opt v k = Inr (js_prop_opt v k)"
  by (cases v) (auto simp: js_get_opt_def js_prop_opt_def)

lemma facebookCommentData_Some:
  "facebookCommentData entry = Inr (Some cd) \<Longrightarrow>
     js_truthy cd \<and> entry \<noteq> JUndefined \<and> entry \<noteq> JNull
     \<and> cd = js_prop (js_prop (js_prop entry ''changes'') ''0'') ''value''
     \<and> js_prop (js_prop (js_prop entry ''changes'') ''0'') ''field'' = JStr ''feed''
     \<and> js_prop cd ''item'' = JStr ''comment''"
  unfolding facebookCommentData_def
  by (auto simp: bind_e_def split: sum.splits if_splits dest!: js_get_Inr)

lemma instagramCommentData_Some:
  "instagramCommentData entry = Inr (Some cd) \<Longrightarrow>
     js_truthy cd \<and> entry \<noteq> JUndefined \<and> entry \<noteq> JNull
     \<and> cd = js_prop (js_prop (js_prop entry ''changes'') ''0'') ''value''
     \<and> js_prop (js_prop (js_prop entry ''changes'') ''0'') ''field'' = JStr ''comments''"
  unfolding instagramCommentData_def
  by (auto simp: bind_e_def split: sum.splits if_splits dest!: js_get_Inr)

lemma js_log_printable: "printable v \<Longrightarrow> js_log v = Inr ()"
  by (auto simp: printable_def js_log_def split: sum.splits)

lemma js_log_not_printable: "\<not> printable v \<Longrightarrow> \<exists>e. js_log v = Inl e"
  by (auto simp: printable_def js_log_def split: sum.splits)

lemma printable_simps [simp]:
  "printable JUndefined" "printable JNull" "printable (JBool b)" "printable (JNum n)"
  "printable (JStr s)"
  by (simp_all add: printable_def)

lemma facebookPost_total:
  "\<exists>r. fst (facebookPost cfg net post mp) = Inr r"
proof (cases "js_to_string post")
  case (Inl e)
  then show ?thesis
    unfolding facebookPost_def Let_def
    by (auto simp: bind_io_def await_def lift_io_def return_io_def getFacebookPostDetails_def)
next
  case (Inr p)
  then show ?thesis
    unfolding facebookPost_def Let_def
    by (auto simp: bind_io_def await_def lift_io_def return_io_def js_get_truthy split: sum.splits)
qed

lemma instagramMedia_total:
  "\<exists>r. fst (instagramMedia cfg net ap media) = Inr r"
  unfolding instagramMedia_def Let_def
  by (auto simp: bind_io_def await_def lift_io_def return_io_def js_get_truthy split: sum.splits)

lemma js_prop_opt_truthy:
  "js_truthy (js_prop_opt v k) \<Longrightarrow> js_get v k = Inr (js_prop_opt v k)"
  by (cases v) (auto simp: js_get_opt_def js_prop_opt_def)

lemma instagramTagger_total:
  "\<exists>r. fst (instagramTagger cfg net ap sender) = Inr r"
  unfolding instagramTagger_def Let_def
  by (auto simp: bind_io_def await_def lift_io_def return_io_def js_get_truthy js_get_opt_total
           js_prop_opt_truthy split: sum.splits)

lemma processFacebookWebhook_try_Inl:
  "facebookCommentData entry = Inl e \<Longrightarrow> processFacebookWebhook_try cfg net entry = (Inl e, [])"
  by (simp add: processFacebookWebhook_try_def)

lemma processFacebookWebhook_try_None:
  "facebookCommentData entry = Inr None \<Longrightarrow> processFacebookWebhook_try cfg net entry = (Inr None, [])"
  by (simp add: processFacebookWebhook_try_def return_io_def)

lemma processFacebookWebhook_try_mention_Inl:
  assumes "facebookCommentData entry = Inr (Some cd)"
    and "facebookMention cfg (js_or (js_prop cd ''message'') (JStr '''')) = Inl e"
  shows "processFacebookWebhook_try cfg net entry = (Inl e, [])"
proof -
  from facebookCommentData_Some[OF assms(1)] have t: "js_truthy cd" by auto
  show ?thesis using assms
    by (simp add: processFacebookWebhook_try_def js_get_truthy[OF t])
qed

lemma processFacebookWebhook_try_no_mention:
  assumes "facebookCommentData entry = Inr (Some cd)"
    and "facebookMention cfg (js_or (js_prop cd ''message'') (JStr '''')) = Inr ('''', '''')"
  shows "processFacebookWebhook_try cfg net entry = (Inr None, [])"
proof -
  from facebookCommentData_Some[OF assms(1)] have t: "js_truthy cd" by auto
  show ?thesis using assms
    by (simp add: processFacebookWebhook_try_def js_get_truthy[OF t] return_io_def)
qed

lemma processFacebookWebhook_try_log_Inl:
  assumes "facebookCommentData entry = Inr (Some cd)"
    and "facebookMention cfg (js_or (js_prop cd ''message'') (JStr '''')) = Inr (mu, mp)"
    and "mu \<noteq> '''' \<or> mp \<noteq> ''''"
    and "\<not> printable (js_prop cd ''comment_id'')"
  shows "\<exists>e. processFacebookWebhook_try cfg net entry = (Inl e, [])"
proof -
  from facebookCommentData_Some[OF assms(1)] have t: "js_truthy cd" by auto
  from js_log_not_printable[OF assms(4)] obtain e where
    "js_log (js_prop cd ''comment_id'') = Inl e" by blast
  then show ?thesis using assms(1,2,3)
    by (simp add: processFacebookWebhook_try_def js_get_truthy[OF t] return_io_def)
qed

lemma processFacebookWebhook_try_mention:
  assumes "facebookCommentData entry = Inr (Some cd)"
    and "facebookMention cfg (js_or (js_prop cd ''message'') (JStr '''')) = Inr (mu, mp)"
    and "mu \<noteq> '''' \<or> mp \<noteq> ''''"
    and "printable (js_prop cd ''comment_id'')"
  shows "\<exists>m. processFacebookWebhook_try cfg net entry =
            (Inr (Some m), snd (facebookPost cfg net (js_prop cd ''post_id'') mp))
          \<and> platform m = ''facebook''
          \<and> commentText m = js_or (js_prop cd ''message'') (JStr '''')
          \<and> mentionedUsername m = mu"
proof -
  from facebookCommentData_Some[OF assms(1)]
  have t: "js_truthy cd" and d: "entry \<noteq> JUndefined" "entry \<noteq> JNull" by auto
  obtain c l where p: "fst (facebookPost cfg net (js_prop cd ''post_id'') mp) = Inr (c, l)"
    using facebookPost_total[of cfg net "js_prop cd ''post_id''" mp] by auto
  show ?thesis
    using assms(1,2,3) p
    by (simp add: processFacebookWebhook_try_def js_get_truthy[OF t] js_get_defined[OF d]
          js_get_opt_total bind_io_def return_io_def lift_io_def js_log_printable[OF assms(4)])
qed

lemma processInstagramWebhook_try_Inl:
  "instagramCommentData entry = Inl e \<Longrightarrow> processInstagramWebhook_try cfg net entry = (Inl e, [])"
  by (simp add: processInstagramWebhook_try_def)

lemma processInstagramWebhook_try_None:
  "instagramCommentData entry = Inr None \<Longrightarrow> processInstagramWebhook_try cfg net entry = (Inr None, [])"
  by (simp add: processInstagramWebhook_try_def return_io_def)

lemma processInstagramWebhook_try_mention_Inl:
  assumes "instagramCommentData entry = Inr (Some cd)"
    and "findUsername (businessIgUsernames cfg) (js_or (js_prop cd ''text'') (JStr '''')) = Inl e"
  shows "processInstagramWebhook_try cfg net entry = (Inl e, [])"
proof -
  from instagramCommentData_Some[OF assms(1)] have t: "js_truthy cd" by auto
  show ?thesis using assms
    by (simp add: processInstagramWebhook_try_def js_get_truthy[OF t])
qed

lemma processInstagramWebhook_try_no_mention:
  assumes "instagramCommentData entry = Inr (Some cd)"
    and "findUsername (businessIgUsernames cfg) (js_or (js_prop cd ''text'') (JStr '''')) = Inr ''''"
  shows "processInstagramWebhook_try cfg net entry = (Inr None, [])"
proof -
  from instagramCommentData_Some[OF assms(1)] have t: "js_truthy cd" by auto
  show ?thesis using assms
    by (simp add: processInstagramWebhook_try_def js_get_truthy[OF t] return_io_def)
qed

lemma processInstagramWebhook_try_log_Inl:
  assumes "instagramCommentData entry = Inr (Some cd)"
    and "findUsername (businessIgUsernames cfg) (js_or (js_prop cd ''text'') (JStr '''')) = Inr mu"
    and "mu \<noteq> ''''"
    and "\<not> printable (js_prop cd ''id'')"
  shows "\<exists>e. processInstagramWebhook_try cfg net entry = (Inl e, [])"
proof -
  from instagramCommentData_Some[OF assms(1)] have t: "js_truthy cd" by auto
  from js_log_not_printable[OF assms(4)] obtain e where
    "js_log (js_prop cd ''id'') = Inl e" by blast
  then show ?thesis using assms(1,2,3)
    by (simp add: processInstagramWebhook_try_def js_get_truthy[OF t] return_io_def)
qed

lemma processInstagramWebhook_try_mention:
  assumes "instagramCommentData entry = Inr (Some cd)"
    and "findUsername (businessIgUsernames cfg) (js_or (js_prop cd ''text'') (JStr '''')) = Inr mu"
    and "mu \<noteq> ''''"
    and "printable (js_prop cd ''id'')"
  shows "\<exists>m. fst (processInstagramWebhook_try cfg net entry) = Inr (Some m)
          \<and> platform m = ''instagram''
          \<and> commentText m = js_or (js_prop cd ''text'') (JStr '''')
          \<and> mentionedUsername m = mu"
proof -
  from instagramCommentData_Some[OF assms(1)]
  have t: "js_truthy cd" and d: "entry \<noteq> JUndefined" "entry \<noteq> JNull" by auto
  define ap where "ap = find (\<lambda>p. instagramUsername p = Some mu) (pages cfg)"
  define media where "media = js_prop_opt (js_prop cd ''media'') ''id''"
  obtain c l where p: "fst (instagramMedia cfg net ap media) = Inr (c, l)"
    using instagramMedia_total[of cfg net ap media] by auto
  obtain tg pic where q: "fst (instagramTagger cfg net ap (js_prop cd ''from'')) = Inr (tg, pic)"
    using instagramTagger_total[of cfg net ap "js_prop cd ''from''"] by auto
  show ?thesis
    using assms(1,2,3) p q
    by (simp add: processInstagramWebhook_try_def js_get_truthy[OF t] js_get_defined[OF d]
          js_get_opt_total bind_io_def return_io_def lift_io_def ap_def media_def Let_def
          js_log_printable[OF assms(4)])
qed

lemma str_includes_iff: "str_includes s needle \<longleftrightarrow> sublist needle s"
  by (induction s) (auto simp: sublist_Cons_right)

lemma str_includes_ex: "str_includes s needle \<longleftrightarrow> (\<exists>ps ss. s = ps @ needle @ ss)"
  by (simp add: str_includes_iff sublist_def)

lemma findUsername_Inr:
  "findUsername us text = Inr u \<Longrightarrow>
     u = '''' \<or> (u \<in> set us \<and> js_includes text (''@'' @ u) = Inr True)"
  by (induction us) (auto simp: bind_e_def split: sum.splits if_splits)

lemma findUsername_no_hit:
  "\<forall>u \<in> set us. js_includes text (''@'' @ u) \<noteq> Inr True \<Longrightarrow>
     findUsername us text = Inr '''' \<or> (\<exists>e. findUsername us text = Inl e)"
  by (induction us) (auto simp: bind_e_def split: sum.splits if_splits)

lemma findPage_Inr:
  "findPage ps text = Inr (mu, mp) \<Longrightarrow>
     (mu = '''' \<and> mp = '''') \<or>
     (\<exists>p \<in> set ps. mp = page_id p \<and>
        (js_includes text (''@'' @ page_name p) = Inr True \<or>
         js_includes text (''@['' @ page_id p @ '']'') = Inr True))"
  by (induction ps) (auto simp: bind_e_def split: sum.splits if_splits)

lemma findPage_no_hit:
  "\<forall>p \<in> set ps. js_includes text (''@'' @ page_name p) \<noteq> Inr True \<and>
                   js_includes text (''@['' @ page_id p @ '']'') \<noteq> Inr True \<Longrightarrow>
     findPage ps text = Inr ('''', '''') \<or> (\<exists>e. findPage ps text = Inl e)"
  by (induction ps) (auto simp: bind_e_def split: sum.splits if_splits)

lemma facebookMention_Inr:
  assumes "facebookMention cfg text = Inr (mu, mp)" and "mu \<noteq> '''' \<or> mp \<noteq> ''''"
  shows "\<exists>needle \<in> set (usernameNeedles cfg @ pageNeedles cfg). js_includes text needle = Inr True"
proof -
  from assms(1) obtain u0 where u0: "findUsername (businessIgUsernames cfg) text = Inr u0"
    and rest: "(if u0 = '''' then findPage (pages cfg) text else Inr (u0, '''')) = Inr (mu, mp)"
    by (auto simp: facebookMention_def bind_e_def split: sum.splits)
  show ?thesis
  proof (cases "u0 = ''''")
    case False
    with findUsername_Inr[OF u0] show ?thesis
      by (auto simp: usernameNeedles_def)
  next
    case True
    with rest have "findPage (pages cfg) text = Inr (mu, mp)" by simp
    from findPage_Inr[OF this] assms(2) show ?thesis
      by (auto simp: pageNeedles_def)
  qed
qed

lemma facebookMention_no_hit:
  assumes "\<forall>needle \<in> set (usernameNeedles cfg @ pageNeedles cfg). js_includes text needle \<noteq> Inr True"
  shows "facebookMention cfg text = Inr ('''', '''') \<or> (\<exists>e. facebookMention cfg text = Inl e)"
proof -
  from assms have a: "\<forall>u \<in> set (businessIgUsernames cfg). js_includes text (''@'' @ u) \<noteq> Inr True"
    by (auto simp: usernameNeedles_def)
  from assms have b: "\<forall>p \<in> set (pages cfg). js_includes text (''@'' @ page_name p) \<noteq> Inr True \<and>
                   js_includes text (''@['' @ page_id p @ '']'') \<noteq> Inr True"
    by (auto simp: pageNeedles_def)
  from findUsername_no_hit[OF a] findPage_no_hit[OF b] show ?thesis
    by (auto simp: facebookMention_def)
qed

lemma facebookText_eq:
  "facebookCommentData entry = Inr (Some cd) \<Longrightarrow>
     facebookText entry = js_or (js_prop cd ''message'') (JStr '''')"
  by (drule facebookCommentData_Some) (simp add: facebookText_def firstChange_def)

lemma instagramText_eq:
  "instagramCommentData entry = Inr (Some cd) \<Longrightarrow>
     instagramText entry = js_or (js_prop cd ''text'') (JStr '''')"
  by (drule instagramCommentData_Some) (simp add: instagramText_def firstChange_def)

text \<open>The outcomes of the Facebook extractor.\<close>

lemma processFacebookWebhook_outcomes:
  "processFacebookWebhook cfg net entry = (Inr None, []) \<or>
   (\<exists>cd mu mp m.
      facebookCommentData entry = Inr (Some cd) \<and>
      facebookMention cfg (facebookText entry) = Inr (mu, mp) \<and> (mu \<noteq> '''' \<or> mp \<noteq> '''') \<and>
      processFacebookWebhook cfg net entry =
        (Inr (Some m), snd (facebookPost cfg net (js_prop cd ''post_id'') mp)) \<and>
      platform m = ''facebook'' \<and> commentText m = facebookText entry \<and> mentionedUsername m = mu)"
proof (cases "facebookCommentData entry")
  case (Inl e)
  then show ?thesis
    by (simp add: processFacebookWebhook_def processFacebookWebhook_try_Inl)
next
  case (Inr r)
  show ?thesis
  proof (cases r)
    case None
    with Inr show ?thesis
      by (simp add: processFacebookWebhook_def processFacebookWebhook_try_None)
  next
    case (Some cd)
    with Inr have cd: "facebookCommentData entry = Inr (Some cd)" by simp
    note tx = facebookText_eq[OF cd]
    show ?thesis
    proof (cases "facebookMention cfg (facebookText entry)")
      case (Inl e)
      with processFacebookWebhook_try_mention_Inl[OF cd, of cfg e net] tx show ?thesis
        by (simp add: processFacebookWebhook_def)
    next
      case mm: (Inr pr)
      obtain mu mp where pr: "pr = (mu, mp)" by (cases pr)
      show ?thesis
      proof (cases "mu = '''' \<and> mp = ''''")
        case True
        with processFacebookWebhook_try_no_mention[OF cd, of cfg net] tx mm pr show ?thesis
          by (simp add: processFacebookWebhook_def)
      next
        case False
        then have ne: "mu \<noteq> '''' \<or> mp \<noteq> ''''" by simp
        from mm pr tx have fm: "facebookMention cfg (js_or (js_prop cd ''message'') (JStr '''')) = Inr (mu, mp)"
          by simp
        show ?thesis
        proof (cases "printable (js_prop cd ''comment_id'')")
          case np: False
          from processFacebookWebhook_try_log_Inl[OF cd fm ne np, of net] show ?thesis
            by (auto simp: processFacebookWebhook_def)
        next
          case pr': True
          from processFacebookWebhook_try_mention[OF cd fm ne pr', of net] obtain m where
            "processFacebookWebhook_try cfg net entry =
              (Inr (Some m), snd (facebookPost cfg net (js_prop cd ''post_id'') mp))"
            "platform m = ''facebook''" "commentText m = js_or (js_prop cd ''message'') (JStr '''')"
            "mentionedUsername m = mu" by blast
          with cd mm pr ne tx show ?thesis
            by (auto simp: processFacebookWebhook_def)
        qed
      qed
    qed
  qed
qed

lemma processInstagramWebhook_outcomes:
  "processInstagramWebhook cfg net entry = (Inr None, []) \<or>
   (\<exists>cd mu m.
      instagramCommentData entry = Inr (Some cd) \<and>
      findUsername (businessIgUsernames cfg) (instagramText entry) = Inr mu \<and> mu \<noteq> '''' \<and>
      fst (processInstagramWebhook cfg net entry) = Inr (Some m) \<and>
      platform m = ''instagram'' \<and> commentText m = instagramText entry \<and> mentionedUsername m = mu)"
proof (cases "instagramCommentData entry")
  case (Inl e)
  then show ?thesis
    by (simp add: processInstagramWebhook_def processInstagramWebhook_try_Inl)
next
  case (Inr r)
  show ?thesis
  proof (cases r)
    case None
    with Inr show ?thesis
      by (simp add: processInstagramWebhook_def processInstagramWebhook_try_None)
  next
    case (Some cd)
    with Inr have cd: "instagramCommentData entry = Inr (Some cd)" by simp
    note tx = instagramText_eq[OF cd]
    show ?thesis
    proof (cases "findUsername (businessIgUsernames cfg) (instagramText entry)")
      case (Inl e)
      with processInstagramWebhook_try_mention_Inl[OF cd, of cfg e net] tx show ?thesis
        by (simp add: processInstagramWebhook_def)
    next
      case mm: (Inr mu)
      show ?thesis
      proof (cases "mu = ''''")
        case True
        with processInstagramWebhook_try_no_mention[OF cd, of cfg net] tx mm show ?thesis
          by (simp add: processInstagramWebhook_def)
      next
        case False
        from mm tx have fm: "findUsername (businessIgUsernames cfg) (js_or (js_prop cd ''text'') (JStr '''')) = Inr mu"
          by simp
        show ?thesis
        proof (cases "printable (js_prop cd ''id'')")
          case np: False
          from processInstagramWebhook_try_log_Inl[OF cd fm False np, of net] show ?thesis
            by (auto simp: processInstagramWebhook_def)
        next
          case pr': True
          from processInstagramWebhook_try_mention[OF cd fm False pr', of net] obtain m where
            "fst (processInstagramWebhook_try cfg net entry) = Inr (Some m)"
            "platform m = ''instagram''" "commentText m = js_or (js_prop cd ''text'') (JStr '''')"
            "mentionedUsername m = mu" by blast
          with cd mm False tx show ?thesis
            by (auto simp: processInstagramWebhook_def catch_null_def)
        qed
      qed
    qed
  qed
qed

lemma findUsername_first:
  "(\<forall>v \<in> set before. \<not> str_includes t (''@'' @ v)) \<Longrightarrow> str_includes t (''@'' @ u) \<Longrightarrow>
     findUsername (before @ u # after) (JStr t) = Inr u"
  by (induction before) auto

lemma pageForKey_ig:
  "p \<in> set (pageForKey e k) \<Longrightarrow> instagramUsername p \<noteq> Some ''''"
  by (auto simp: pageForKey_def Let_def env_or_undefined_def split: if_splits option.splits)

lemma pushPages_ig:
  "p \<in> set (pushPages e ks) \<Longrightarrow> instagramUsername p \<noteq> Some ''''"
  by (induction ks) (auto dest: pageForKey_ig)

lemma businessIgUsernames_nonempty:
  "'''' \<notin> set (businessIgUsernames (load_config trim e))"
proof -
  have "'''' \<notin> set (extractBusinessIgUsernames trim e)"
    by (simp add: extractBusinessIgUsernames_def)
  moreover have "'''' \<notin> set (map the (filter (\<lambda>username. username \<noteq> None)
                         (map instagramUsername (extractPages e))))"
    using pushPages_ig[of _ e "pageIdKeys e"]
    by (auto simp: extractPages_def)
  ultimately show ?thesis
    by (simp add: load_config_def getBusinessIgUsernames_def Let_def)
qed

lemma str_includes_at:
  "str_includes t (''@'' @ u) \<longleftrightarrow> (\<exists>ps ss. t = ps @ ''@'' @ u @ ss)"
  by (simp add: str_includes_ex)

lemma array_index_0: "array_index ''0'' = Some 0"
  by (simp add: array_index_def is_digit_def)

lemma facebookCommentData_first:
  "js_get e1 ''changes'' = Inr (JArr (c # r1)) \<Longrightarrow> js_get e2 ''changes'' = Inr (JArr (c # r2)) \<Longrightarrow>
     facebookCommentData e1 = facebookCommentData e2"
  by (simp add: facebookCommentData_def array_index_0)

lemma instagramCommentData_first:
  "js_get e1 ''changes'' = Inr (JArr (c # r1)) \<Longrightarrow> js_get e2 ''changes'' = Inr (JArr (c # r2)) \<Longrightarrow>
     instagramCommentData e1 = instagramCommentData e2"
  by (simp add: instagramCommentData_def array_index_0)

lemma processEntries_no_response:
  "list_all (\<lambda>ev. \<not> isRespond ev) (snd (processEntries cfg net notify obj entries))"
proof (induction entries)
  case Nil
  show ?case by simp
next
  case (Cons entry rest)
  have m: "list_all (\<lambda>ev. \<not> isRespond ev) (map Fetch rs)" for rs
    by (induction rs) auto
  show ?case
    using Cons m
    by (auto simp: Let_def split: sum.splits option.splits)
qed

lemma extractPages_env0: "extractPages env0 = [pageAcme, pageBeta]"
  by code_simp

lemma getBusinessIgUsernames_env0: "getBusinessIgUsernames id env0 = [''acme'']"
  by code_simp

lemma load_config_env0:
  "load_config id env0 =
     \<lparr>verifyToken = ''secret'', pages = [pageAcme, pageBeta],
      businessIgUsernames = [''acme'']\<rparr>"
  unfolding load_config_def extractPages_env0 getBusinessIgUsernames_env0
  by (simp add: env_or_empty_def env0_def)

section \<open>Claims about the account registry\<close>

text \<open>
  C10. Every page of \<open>config.meta.pages\<close>, as built at startup from the environment, has
  a non-empty id, a non-empty name and a non-empty access token; and whenever the list is
  not empty, \<open>getPageAccessToken\<close> returns a non-empty token, for every id asked for
  (also for none).
\<close>

theorem pages_fields_nonempty:
  "(\<forall>p \<in> set (pages (load_config trim e)).
       page_id p \<noteq> '''' \<and> page_name p \<noteq> '''' \<and> pageAccessToken p \<noteq> '''')
   \<and> (pages (load_config trim e) \<noteq> [] \<longrightarrow>
        getPageAccessToken (pages (load_config trim e)) pageId \<noteq> '''')"
proof -
  have a: "\<forall>p \<in> set (extractPages e).
       page_id p \<noteq> '''' \<and> page_name p \<noteq> '''' \<and> pageAccessToken p \<noteq> ''''"
    using extractPages_fields by blast
  have "getPageAccessToken (extractPages e) pageId \<noteq> ''''" if "extractPages e \<noteq> []"
  proof -
    from getPageAccessToken_cases[OF that] obtain p where
      "p \<in> set (extractPages e)" "getPageAccessToken (extractPages e) pageId = pageAccessToken p"
      by blast
    with a show ?thesis by simp
  qed
  with a show ?thesis by (simp add: load_config_def)
qed

theorem pages_fields_nonempty_witness:
  "pages (load_config id env0) = [pageAcme, pageBeta]
   \<and> pageBeta \<in> set (pages (load_config id env0))
   \<and> page_id pageBeta \<noteq> '''' \<and> page_name pageBeta \<noteq> '''' \<and> pageAccessToken pageBeta \<noteq> ''''
   \<and> getPageAccessToken (pages (load_config id env0)) (Some ''999'') \<noteq> ''''"
  using pages_fields_nonempty[of id env0 "Some ''999''"]
  by (simp add: load_config_env0)

text \<open>
  C8. For the pages configured at startup: \<open>getPageAccessToken\<close> returns the token of the
  (first) configured page with the id asked for when there is one; the token of the first
  configured page when no id is given or no configured page has it; and the empty string
  when no page is configured.
\<close>

theorem getPageAccessToken_lookup:
  "cfg = load_config trim e \<Longrightarrow>
     (\<forall>i p. find (\<lambda>q. page_id q = i) (pages cfg) = Some p \<longrightarrow>
        getPageAccessToken (pages cfg) (Some i) = pageAccessToken p)
   \<and> ((pageId = None \<or> (\<forall>q \<in> set (pages cfg). Some (page_id q) \<noteq> pageId)) \<and> pages cfg \<noteq> [] \<longrightarrow>
        getPageAccessToken (pages cfg) pageId = pageAccessToken (hd (pages cfg)))
   \<and> (pages cfg = [] \<longrightarrow> getPageAccessToken (pages cfg) pageId = '''')"
proof -
  assume cfg: "cfg = load_config trim e"
  have ids: "\<forall>q \<in> set (pages cfg). page_id q \<noteq> ''''"
    using extractPages_fields by (auto simp: cfg load_config_def)
  have 1: "getPageAccessToken (pages cfg) (Some i) = pageAccessToken p"
    if "find (\<lambda>q. page_id q = i) (pages cfg) = Some p" for i p
  proof -
    from that have "p \<in> set (pages cfg)" "page_id p = i" by (auto dest: find_Some_mem)
    with ids have "i \<noteq> ''''" by auto
    then show ?thesis using that by (rule getPageAccessToken_found)
  qed
  have 2: "getPageAccessToken (pages cfg) pageId = pageAccessToken (hd (pages cfg))"
    if "pageId = None \<or> (\<forall>q \<in> set (pages cfg). Some (page_id q) \<noteq> pageId)" "pages cfg \<noteq> []"
  proof -
    from that(1) have "getPageAccessToken (pages cfg) pageId =
        (case pages cfg of p # _ \<Rightarrow> pageAccessToken p | [] \<Rightarrow> [])"
      by (intro getPageAccessToken_fallback) auto
    with that(2) show ?thesis by (cases "pages cfg") auto
  qed
  have 3: "getPageAccessToken (pages cfg) pageId = ''''" if "pages cfg = []"
    using that by (cases pageId) (auto simp: getPageAccessToken_def)
  from 1 2 3 show ?thesis by blast
qed

theorem getPageAccessToken_lookup_witness:
  "find (\<lambda>q. page_id q = ''222'') (pages (load_config id env0)) = Some pageBeta
   \<and> getPageAccessToken (pages (load_config id env0)) (Some ''222'') = ''tokB''
   \<and> pages (load_config id env0) = [pageAcme, pageBeta]
   \<and> page_id pageAcme \<noteq> ''999'' \<and> page_id pageBeta \<noteq> ''999''
   \<and> getPageAccessToken (pages (load_config id env0)) (Some ''999'') = ''tokA''
   \<and> getPageAccessToken (pages (load_config id env0)) None = ''tokA''
   \<and> pages (load_config id []) = []
   \<and> getPageAccessToken (pages (load_config id [])) (Some ''222'') = ''''"
proof -
  have f: "find (\<lambda>q. page_id q = ''222'') (pages (load_config id env0)) = Some pageBeta"
    by (simp add: load_config_env0 pageAcme_def pageBeta_def)
  have e: "pages (load_config id []) = []"
    by (simp add: load_config_def extractPages_def pageIdKeys_def)
  from getPageAccessToken_lookup[OF refl, of id env0 "Some ''999''"]
       getPageAccessToken_lookup[OF refl, of id env0 None]
       getPageAccessToken_lookup[OF refl, of id "[]" "Some ''222''"] f e
  show ?thesis
    by (simp add: load_config_env0 pageAcme_def pageBeta_def)
qed


section \<open>Claims about the mention extractors\<close>

text \<open>
  C1. A mention record is built only on a match: when \<open>processFacebookWebhook\<close> returns a
  record, its comment text is the text of the first change and contains \<open>@username\<close>
  for a configured business Instagram username, or \<open>@PageName\<close> or \<open>@[pageId]\<close> for a
  configured page, as a literal substring when the text is a string (as the payload type
  says); likewise for \<open>processInstagramWebhook\<close> with the usernames alone. When the
  field or the item type of the change is not the expected one, or when the text contains
  none of the configured identifiers, the extractor returns null and issues no request;
  and whenever an extractor returns null, it has issued no request and the controller's
  loop hands nothing to the notifier for that entry.
\<close>

theorem mention_record_only_on_match:
  "(\<forall>m. fst (processFacebookWebhook cfg net entry) = Inr (Some m) \<longrightarrow>
        commentText m = facebookText entry \<and>
        (\<exists>needle \<in> set (usernameNeedles cfg @ pageNeedles cfg).
           js_includes (commentText m) needle = Inr True \<and>
           (\<forall>t. commentText m = JStr t \<longrightarrow> (\<exists>ps ss. t = ps @ needle @ ss))))
   \<and> (\<forall>m. fst (processInstagramWebhook cfg net entry) = Inr (Some m) \<longrightarrow>
        commentText m = instagramText entry \<and>
        (\<exists>needle \<in> set (usernameNeedles cfg).
           js_includes (commentText m) needle = Inr True \<and>
           (\<forall>t. commentText m = JStr t \<longrightarrow> (\<exists>ps ss. t = ps @ needle @ ss))))
   \<and> (js_prop (firstChange entry) ''field'' \<noteq> JStr ''feed'' \<or>
       js_prop (js_prop (firstChange entry) ''value'') ''item'' \<noteq> JStr ''comment'' \<longrightarrow>
        processFacebookWebhook cfg net entry = (Inr None, []))
   \<and> (js_prop (firstChange entry) ''field'' \<noteq> JStr ''comments'' \<longrightarrow>
        processInstagramWebhook cfg net entry = (Inr None, []))
   \<and> ((\<forall>needle \<in> set (usernameNeedles cfg @ pageNeedles cfg).
          js_includes (facebookText entry) needle \<noteq> Inr True) \<longrightarrow>
        processFacebookWebhook cfg net entry = (Inr None, []))
   \<and> ((\<forall>needle \<in> set (usernameNeedles cfg).
          js_includes (instagramText entry) needle \<noteq> Inr True) \<longrightarrow>
        processInstagramWebhook cfg net entry = (Inr None, []))
   \<and> (fst (processFacebookWebhook cfg net entry) = Inr None \<longrightarrow>
        snd (processFacebookWebhook cfg net entry) = [] \<and>
        snd (processEntries cfg net notify ''page'' [entry]) = [Extract ''page'' entry])
   \<and> (fst (processInstagramWebhook cfg net entry) = Inr None \<longrightarrow>
        snd (processInstagramWebhook cfg net entry) = [] \<and>
        snd (processEntries cfg net notify ''instagram'' [entry]) = [Extract ''instagram'' entry])"
proof -
  note fb = processFacebookWebhook_outcomes[of cfg net entry]
  note ig = processInstagramWebhook_outcomes[of cfg net entry]
  have 1: "commentText m = facebookText entry \<and>
        (\<exists>needle \<in> set (usernameNeedles cfg @ pageNeedles cfg).
           js_includes (commentText m) needle = Inr True \<and>
           (\<forall>t. commentText m = JStr t \<longrightarrow> (\<exists>ps ss. t = ps @ needle @ ss)))"
    if h: "fst (processFacebookWebhook cfg net entry) = Inr (Some m)" for m
  proof -
    from fb h obtain mu mp where
      mm: "facebookMention cfg (facebookText entry) = Inr (mu, mp)" "mu \<noteq> '''' \<or> mp \<noteq> ''''"
      and ct: "commentText m = facebookText entry" by auto
    from facebookMention_Inr[OF mm] obtain needle where
      n: "needle \<in> set (usernameNeedles cfg @ pageNeedles cfg)"
         "js_includes (facebookText entry) needle = Inr True" by blast
    with ct show ?thesis by (auto simp: str_includes_ex)
  qed
  have 2: "commentText m = instagramText entry \<and>
        (\<exists>needle \<in> set (usernameNeedles cfg).
           js_includes (commentText m) needle = Inr True \<and>
           (\<forall>t. commentText m = JStr t \<longrightarrow> (\<exists>ps ss. t = ps @ needle @ ss)))"
    if h: "fst (processInstagramWebhook cfg net entry) = Inr (Some m)" for m
  proof -
    from ig h obtain mu where
      mm: "findUsername (businessIgUsernames cfg) (instagramText entry) = Inr mu" "mu \<noteq> ''''"
      and ct: "commentText m = instagramText entry" by auto
    from findUsername_Inr[OF mm(1)] mm(2) have
      "''@'' @ mu \<in> set (usernameNeedles cfg)"
      "js_includes (instagramText entry) (''@'' @ mu) = Inr True"
      by (auto simp: usernameNeedles_def)
    with ct show ?thesis by (auto simp: str_includes_ex)
  qed
  have 3: "processFacebookWebhook cfg net entry = (Inr None, [])"
    if "js_prop (firstChange entry) ''field'' \<noteq> JStr ''feed'' \<or>
       js_prop (js_prop (firstChange entry) ''value'') ''item'' \<noteq> JStr ''comment''"
    using fb that by (auto simp: firstChange_def dest!: facebookCommentData_Some)
  have 4: "processInstagramWebhook cfg net entry = (Inr None, [])"
    if "js_prop (firstChange entry) ''field'' \<noteq> JStr ''comments''"
    using ig that by (auto simp: firstChange_def dest!: instagramCommentData_Some)
  have 5: "processFacebookWebhook cfg net entry = (Inr None, [])"
    if "\<forall>needle \<in> set (usernameNeedles cfg @ pageNeedles cfg).
          js_includes (facebookText entry) needle \<noteq> Inr True"
    using fb facebookMention_no_hit[OF that] by auto
  have 6: "processInstagramWebhook cfg net entry = (Inr None, [])"
    if "\<forall>needle \<in> set (usernameNeedles cfg).
          js_includes (instagramText entry) needle \<noteq> Inr True"
  proof -
    from that have "\<forall>u \<in> set (businessIgUsernames cfg). js_includes (instagramText entry) (''@'' @ u) \<noteq> Inr True"
      by (auto simp: usernameNeedles_def)
    from findUsername_no_hit[OF this] ig show ?thesis by auto
  qed
  have 7: "snd (processFacebookWebhook cfg net entry) = [] \<and>
        snd (processEntries cfg net notify ''page'' [entry]) = [Extract ''page'' entry]"
    if "fst (processFacebookWebhook cfg net entry) = Inr None"
    using fb that by (auto simp: Let_def)
  have 8: "snd (processInstagramWebhook cfg net entry) = [] \<and>
        snd (processEntries cfg net notify ''instagram'' [entry]) = [Extract ''instagram'' entry]"
    if "fst (processInstagramWebhook cfg net entry) = Inr None"
    using ig that by (auto simp: Let_def)
  from 1 2 3 4 5 6 7 8 show ?thesis by blast
qed


theorem mention_record_only_on_match_witness:
  "(\<exists>m. fst (processFacebookWebhook cfg0 net0 (entryOf [fbComment ''Great shot, @acme!''])) = Inr (Some m)
        \<and> commentText m = JStr ''Great shot, @acme!''
        \<and> (\<exists>needle \<in> set (usernameNeedles cfg0 @ pageNeedles cfg0).
              \<exists>ps ss. ''Great shot, @acme!'' = ps @ needle @ ss))
   \<and> (\<exists>m. fst (processInstagramWebhook cfg0 net0 (entryOf [igComment ''Hello @acme_shop'']))
              = Inr (Some m)
        \<and> commentText m = JStr ''Hello @acme_shop''
        \<and> (\<exists>needle \<in> set (usernameNeedles cfg0). \<exists>ps ss. ''Hello @acme_shop'' = ps @ needle @ ss))
   \<and> js_prop (firstChange (entryOf [otherChange])) ''field'' \<noteq> JStr ''feed''
   \<and> processFacebookWebhook cfg0 net0 (entryOf [otherChange]) = (Inr None, [])
   \<and> js_prop (firstChange (entryOf [otherChange])) ''field'' \<noteq> JStr ''comments''
   \<and> processInstagramWebhook cfg0 net0 (entryOf [otherChange]) = (Inr None, [])
   \<and> list_all (\<lambda>needle. js_includes (facebookText (entryOf [fbComment ''Nice!''])) needle \<noteq> Inr True)
        (usernameNeedles cfg0 @ pageNeedles cfg0)
   \<and> processFacebookWebhook cfg0 net0 (entryOf [fbComment ''Nice!'']) = (Inr None, [])
   \<and> snd (processEntries cfg0 net0 notify0 ''page'' [entryOf [fbComment ''Nice!'']])
        = [Extract ''page'' (entryOf [fbComment ''Nice!''])]
   \<and> list_all (\<lambda>needle. js_includes (instagramText (entryOf [igComment ''Nice!''])) needle \<noteq> Inr True)
        (usernameNeedles cfg0)
   \<and> processInstagramWebhook cfg0 net0 (entryOf [igComment ''Nice!'']) = (Inr None, [])
   \<and> snd (processEntries cfg0 net0 notify0 ''instagram'' [entryOf [igComment ''Nice!'']])
        = [Extract ''instagram'' (entryOf [igComment ''Nice!''])]"
proof -
  let ?fb = "entryOf [fbComment ''Great shot, @acme!'']"
  let ?ig = "entryOf [igComment ''Hello @acme_shop'']"
  let ?fn = "entryOf [fbComment ''Nice!'']"
  let ?gn = "entryOf [igComment ''Nice!'']"
  let ?o = "entryOf [otherChange]"
  have "fst (processFacebookWebhook cfg0 net0 ?fb)
          = Inr (Some (the (projr (fst (processFacebookWebhook cfg0 net0 ?fb)))))"
    by code_simp
  then have a: "\<exists>m. fst (processFacebookWebhook cfg0 net0 ?fb) = Inr (Some m)" ..
  have a': "facebookText ?fb = JStr ''Great shot, @acme!''"
    by code_simp
  have "fst (processInstagramWebhook cfg0 net0 ?ig)
          = Inr (Some (the (projr (fst (processInstagramWebhook cfg0 net0 ?ig)))))"
    by code_simp
  then have b: "\<exists>m. fst (processInstagramWebhook cfg0 net0 ?ig) = Inr (Some m)" ..
  have b': "instagramText ?ig = JStr ''Hello @acme_shop''"
    by code_simp
  have c: "js_prop (firstChange ?o) ''field'' \<noteq> JStr ''feed''"
          "js_prop (firstChange ?o) ''field'' \<noteq> JStr ''comments''"
    by code_simp+
  have d: "list_all (\<lambda>needle. js_includes (facebookText ?fn) needle \<noteq> Inr True)
             (usernameNeedles cfg0 @ pageNeedles cfg0)"
    by code_simp
  have e: "list_all (\<lambda>needle. js_includes (instagramText ?gn) needle \<noteq> Inr True)
             (usernameNeedles cfg0)"
    by code_simp
  note d' = d[unfolded list_all_iff] and e' = e[unfolded list_all_iff]
  from mention_record_only_on_match[of cfg0 net0 ?fb notify0] a a'
  have 1: "\<exists>m. fst (processFacebookWebhook cfg0 net0 ?fb) = Inr (Some m)
        \<and> commentText m = JStr ''Great shot, @acme!''
        \<and> (\<exists>needle \<in> set (usernameNeedles cfg0 @ pageNeedles cfg0).
              \<exists>ps ss. ''Great shot, @acme!'' = ps @ needle @ ss)"
    by (metis (no_types, lifting))
  from mention_record_only_on_match[of cfg0 net0 ?ig notify0] b b'
  have 2: "\<exists>m. fst (processInstagramWebhook cfg0 net0 ?ig) = Inr (Some m)
        \<and> commentText m = JStr ''Hello @acme_shop''
        \<and> (\<exists>needle \<in> set (usernameNeedles cfg0). \<exists>ps ss. ''Hello @acme_shop'' = ps @ needle @ ss)"
    by (metis (no_types, lifting))
  from mention_record_only_on_match[of cfg0 net0 ?o notify0] c
  have 3: "processFacebookWebhook cfg0 net0 ?o = (Inr None, [])"
          "processInstagramWebhook cfg0 net0 ?o = (Inr None, [])"
    by blast+
  from mention_record_only_on_match[of cfg0 net0 ?fn notify0] d'
  have 4: "processFacebookWebhook cfg0 net0 ?fn = (Inr None, [])"
    by blast
  with mention_record_only_on_match[of cfg0 net0 ?fn notify0]
  have 5: "snd (processEntries cfg0 net0 notify0 ''page'' [?fn]) = [Extract ''page'' ?fn]"
    by simp
  from mention_record_only_on_match[of cfg0 net0 ?gn notify0] e'
  have 6: "processInstagramWebhook cfg0 net0 ?gn = (Inr None, [])"
    by blast
  with mention_record_only_on_match[of cfg0 net0 ?gn notify0]
  have 7: "snd (processEntries cfg0 net0 notify0 ''instagram'' [?gn]) = [Extract ''instagram'' ?gn]"
    by simp
  from 1 2 3 4 5 6 7 c d e show ?thesis by blast
qed


text \<open>
  C5. When the text of a comment contains \<open>@u\<close> for a configured username \<open>u\<close> and
  for none of the usernames configured before \<open>u\<close>, the loop over the configured
  usernames selects \<open>u\<close> and stops there: the usernames configured after \<open>u\<close> play no
  role, whether they match or not. For a relevant comment change with that text and
  non-empty \<open>u\<close> (as every username configured at startup is:
  \<open>businessIgUsernames_nonempty\<close>), both extractors go on to the log line that
  interpolates the comment's id (\<open>comment_id\<close> on Facebook, \<open>id\<close> on Instagram): when
  the id can be interpolated, the extractor returns a record whose \<open>mentionedUsername\<close>
  is \<open>u\<close>; when it cannot (an object with an own \<open>toString\<close> key), the interpolation
  throws after the selection, and the extractor returns null without a request.
\<close>

theorem first_configured_username_wins:
  "businessIgUsernames cfg = before @ u # after \<and>
   (\<forall>v \<in> set before. \<not> (\<exists>ps ss. t = ps @ ''@'' @ v @ ss)) \<and>
   (\<exists>ps ss. t = ps @ ''@'' @ u @ ss) \<longrightarrow>
     findUsername (businessIgUsernames cfg) (JStr t) = Inr u
     \<and> findUsername (before @ u # after) (JStr t) = findUsername (before @ [u]) (JStr t)
     \<and> (u \<noteq> '''' \<and> facebookText entry = JStr t \<and>
         (\<exists>cd. facebookCommentData entry = Inr (Some cd) \<and> printable (js_prop cd ''comment_id'')) \<longrightarrow>
          (\<exists>m. fst (processFacebookWebhook cfg net entry) = Inr (Some m) \<and> mentionedUsername m = u))
     \<and> (u \<noteq> '''' \<and> instagramText entry = JStr t \<and>
         (\<exists>cd. instagramCommentData entry = Inr (Some cd) \<and> printable (js_prop cd ''id'')) \<longrightarrow>
          (\<exists>m. fst (processInstagramWebhook cfg net entry) = Inr (Some m) \<and> mentionedUsername m = u))
     \<and> (u \<noteq> '''' \<and> facebookText entry = JStr t \<and>
         (\<exists>cd. facebookCommentData entry = Inr (Some cd) \<and> \<not> printable (js_prop cd ''comment_id'')) \<longrightarrow>
          processFacebookWebhook cfg net entry = (Inr None, []))
     \<and> (u \<noteq> '''' \<and> instagramText entry = JStr t \<and>
         (\<exists>cd. instagramCommentData entry = Inr (Some cd) \<and> \<not> printable (js_prop cd ''id'')) \<longrightarrow>
          processInstagramWebhook cfg net entry = (Inr None, []))"
proof (intro impI, elim conjE)
  assume us: "businessIgUsernames cfg = before @ u # after"
    and nb: "\<forall>v \<in> set before. \<not> (\<exists>ps ss. t = ps @ ''@'' @ v @ ss)"
    and hit: "\<exists>ps ss. t = ps @ ''@'' @ u @ ss"
  from nb have nb': "\<forall>v \<in> set before. \<not> str_includes t (''@'' @ v)"
    by (simp add: str_includes_ex)
  from hit have hit': "str_includes t (''@'' @ u)"
    by (simp add: str_includes_ex)
  have f: "findUsername (before @ u # after) (JStr t) = Inr u" for after
    using nb' hit' by (rule findUsername_first)
  have 1: "findUsername (businessIgUsernames cfg) (JStr t) = Inr u"
    by (simp add: us f)
  have 2: "findUsername (before @ u # after) (JStr t) = findUsername (before @ [u]) (JStr t)"
    by (simp add: f)
  have fm: "facebookMention cfg (js_or (js_prop cd ''message'') (JStr [])) = Inr (u, [])"
    if "u \<noteq> ''''" "facebookText entry = JStr t" "facebookCommentData entry = Inr (Some cd)" for cd
    using 1 that facebookText_eq[OF that(3)] by (simp add: facebookMention_def)
  have im: "findUsername (businessIgUsernames cfg) (js_or (js_prop cd ''text'') (JStr '''')) = Inr u"
    if "instagramText entry = JStr t" "instagramCommentData entry = Inr (Some cd)" for cd
    using 1 that instagramText_eq[OF that(2)] by simp
  have 3: "\<exists>m. fst (processFacebookWebhook cfg net entry) = Inr (Some m) \<and> mentionedUsername m = u"
    if "u \<noteq> ''''" "facebookText entry = JStr t"
       "\<exists>cd. facebookCommentData entry = Inr (Some cd) \<and> printable (js_prop cd ''comment_id'')"
  proof -
    from that obtain cd where cd: "facebookCommentData entry = Inr (Some cd)"
      and pr: "printable (js_prop cd ''comment_id'')" by blast
    from processFacebookWebhook_try_mention[OF cd fm[OF that(1,2) cd] _ pr, of net] that(1)
    show ?thesis
      by (auto simp: processFacebookWebhook_def catch_null_def)
  qed
  have 4: "\<exists>m. fst (processInstagramWebhook cfg net entry) = Inr (Some m) \<and> mentionedUsername m = u"
    if "u \<noteq> ''''" "instagramText entry = JStr t"
       "\<exists>cd. instagramCommentData entry = Inr (Some cd) \<and> printable (js_prop cd ''id'')"
  proof -
    from that obtain cd where cd: "instagramCommentData entry = Inr (Some cd)"
      and pr: "printable (js_prop cd ''id'')" by blast
    from processInstagramWebhook_try_mention[OF cd im[OF that(2) cd] that(1) pr, of net]
    show ?thesis
      by (auto simp: processInstagramWebhook_def catch_null_def)
  qed
  have 5: "processFacebookWebhook cfg net entry = (Inr None, [])"
    if "u \<noteq> ''''" "facebookText entry = JStr t"
       "\<exists>cd. facebookCommentData entry = Inr (Some cd) \<and> \<not> printable (js_prop cd ''comment_id'')"
  proof -
    from that obtain cd where cd: "facebookCommentData entry = Inr (Some cd)"
      and np: "\<not> printable (js_prop cd ''comment_id'')" by blast
    from that(1) have "u \<noteq> '''' \<or> ([]::string) \<noteq> ''''" by simp
    from processFacebookWebhook_try_log_Inl[OF cd fm[OF that(1,2) cd] this np, of net]
    show ?thesis
      by (auto simp: processFacebookWebhook_def catch_null_def)
  qed
  have 6: "processInstagramWebhook cfg net entry = (Inr None, [])"
    if "u \<noteq> ''''" "instagramText entry = JStr t"
       "\<exists>cd. instagramCommentData entry = Inr (Some cd) \<and> \<not> printable (js_prop cd ''id'')"
  proof -
    from that obtain cd where cd: "instagramCommentData entry = Inr (Some cd)"
      and np: "\<not> printable (js_prop cd ''id'')" by blast
    from processInstagramWebhook_try_log_Inl[OF cd im[OF that(2) cd] that(1) np, of net]
    show ?thesis
      by (auto simp: processInstagramWebhook_def catch_null_def)
  qed
  from 1 2 3 4 5 6
  show "findUsername (businessIgUsernames cfg) (JStr t) = Inr u
     \<and> findUsername (before @ u # after) (JStr t) = findUsername (before @ [u]) (JStr t)
     \<and> (u \<noteq> '''' \<and> facebookText entry = JStr t \<and>
         (\<exists>cd. facebookCommentData entry = Inr (Some cd) \<and> printable (js_prop cd ''comment_id'')) \<longrightarrow>
          (\<exists>m. fst (processFacebookWebhook cfg net entry) = Inr (Some m) \<and> mentionedUsername m = u))
     \<and> (u \<noteq> '''' \<and> instagramText entry = JStr t \<and>
         (\<exists>cd. instagramCommentData entry = Inr (Some cd) \<and> printable (js_prop cd ''id'')) \<longrightarrow>
          (\<exists>m. fst (processInstagramWebhook cfg net entry) = Inr (Some m) \<and> mentionedUsername m = u))
     \<and> (u \<noteq> '''' \<and> facebookText entry = JStr t \<and>
         (\<exists>cd. facebookCommentData entry = Inr (Some cd) \<and> \<not> printable (js_prop cd ''comment_id'')) \<longrightarrow>
          processFacebookWebhook cfg net entry = (Inr None, []))
     \<and> (u \<noteq> '''' \<and> instagramText entry = JStr t \<and>
         (\<exists>cd. instagramCommentData entry = Inr (Some cd) \<and> \<not> printable (js_prop cd ''id'')) \<longrightarrow>
          processInstagramWebhook cfg net entry = (Inr None, []))"
    by blast
qed

theorem first_configured_username_wins_witness:
  "businessIgUsernames cfg1 = [''zeta''] @ ''acme'' # [''acme_shop'']
   \<and> \<not> (\<exists>ps ss. ''Hello @acme_shop'' = ps @ ''@'' @ ''zeta'' @ ss)
   \<and> (\<exists>ps ss. ''Hello @acme_shop'' = ps @ ''@'' @ ''acme'' @ ss)
   \<and> (\<exists>ps ss. ''Hello @acme_shop'' = ps @ ''@'' @ ''acme_shop'' @ ss)
   \<and> findUsername (businessIgUsernames cfg1) (JStr ''Hello @acme_shop'') = Inr ''acme''
   \<and> (\<exists>m. fst (processFacebookWebhook cfg1 net0 (entryOf [fbComment ''Hello @acme_shop''])) = Inr (Some m)
          \<and> mentionedUsername m = ''acme'')
   \<and> (\<exists>m. fst (processInstagramWebhook cfg1 net0 (entryOf [igComment ''Hello @acme_shop''])) = Inr (Some m)
          \<and> mentionedUsername m = ''acme'')
   \<and> processFacebookWebhook cfg1 net0 (entryOf [fbCommentId unprintable ''Hello @acme_shop''])
        = (Inr None, [])
   \<and> processInstagramWebhook cfg1 net0 (entryOf [igCommentId unprintable ''Hello @acme_shop''])
        = (Inr None, [])"
proof -
  let ?t = "''Hello @acme_shop''"
  have us: "businessIgUsernames cfg1 = [''zeta''] @ ''acme'' # [''acme_shop'']"
    by (simp add: cfg1_def)
  have "\<not> str_includes ?t (''@'' @ ''zeta'')" by code_simp
  then have z: "\<not> (\<exists>ps ss. ?t = ps @ ''@'' @ ''zeta'' @ ss)"
    unfolding str_includes_at .
  have "str_includes ?t (''@'' @ ''acme'')" by code_simp
  then have a: "\<exists>ps ss. ?t = ps @ ''@'' @ ''acme'' @ ss"
    unfolding str_includes_at .
  have "str_includes ?t (''@'' @ ''acme_shop'')" by code_simp
  then have s: "\<exists>ps ss. ?t = ps @ ''@'' @ ''acme_shop'' @ ss"
    unfolding str_includes_at .
  have fb: "facebookText (entryOf [fbComment ?t]) = JStr ?t"
           "facebookCommentData (entryOf [fbComment ?t])
              = Inr (Some (the (projr (facebookCommentData (entryOf [fbComment ?t])))))"
           "printable (js_prop (the (projr (facebookCommentData (entryOf [fbComment ?t])))) ''comment_id'')"
    by code_simp+
  have ig: "instagramText (entryOf [igComment ?t]) = JStr ?t"
           "instagramCommentData (entryOf [igComment ?t])
              = Inr (Some (the (projr (instagramCommentData (entryOf [igComment ?t])))))"
           "printable (js_prop (the (projr (instagramCommentData (entryOf [igComment ?t])))) ''id'')"
    by code_simp+
  let ?fu = "entryOf [fbCommentId unprintable ?t]"
  let ?iu = "entryOf [igCommentId unprintable ?t]"
  have fu: "facebookText ?fu = JStr ?t"
           "facebookCommentData ?fu = Inr (Some (the (projr (facebookCommentData ?fu))))"
           "\<not> printable (js_prop (the (projr (facebookCommentData ?fu))) ''comment_id'')"
    by code_simp+
  have iu: "instagramText ?iu = JStr ?t"
           "instagramCommentData ?iu = Inr (Some (the (projr (instagramCommentData ?iu))))"
           "\<not> printable (js_prop (the (projr (instagramCommentData ?iu))) ''id'')"
    by code_simp+
  have ne: "''acme'' \<noteq> ''''" by simp
  from z have zb: "\<forall>v \<in> set [''zeta'']. \<not> (\<exists>ps ss. ?t = ps @ ''@'' @ v @ ss)" by simp
  note inst = first_configured_username_wins[where cfg = cfg1 and before = "[''zeta'']"
      and u = "''acme''" and after = "[''acme_shop'']" and t = "?t" and net = net0,
      rule_format, OF conjI[OF us conjI[OF zb a]]]
  from inst[where entry = "entryOf [fbComment ?t]"] fb ne
  have 1: "findUsername (businessIgUsernames cfg1) (JStr ?t) = Inr ''acme''"
    and 2: "\<exists>m. fst (processFacebookWebhook cfg1 net0 (entryOf [fbComment ?t])) = Inr (Some m)
          \<and> mentionedUsername m = ''acme''"
    by blast+
  from inst[where entry = "entryOf [igComment ?t]"] ig ne
  have 3: "\<exists>m. fst (processInstagramWebhook cfg1 net0 (entryOf [igComment ?t])) = Inr (Some m)
          \<and> mentionedUsername m = ''acme''"
    by blast
  from inst[where entry = ?fu] fu ne
  have 4: "processFacebookWebhook cfg1 net0 ?fu = (Inr None, [])"
    by blast
  from inst[where entry = ?iu] iu ne
  have 5: "processInstagramWebhook cfg1 net0 ?iu = (Inr None, [])"
    by blast
  from us z a s 1 2 3 4 5 show ?thesis by blast
qed

text \<open>
  C9. For every entry, also \<open>null\<close>, \<open>undefined\<close> or a value with missing or ill-typed
  fields, \<open>processFacebookWebhook\<close> and \<open>processInstagramWebhook\<close> return a record or
  null and never throw; every exception of the \<open>try\<close> block is turned into null.
  (Both are total functions: the loops run over the finite configured lists.)
\<close>

theorem extractors_return_option:
  "(\<exists>r. fst (processFacebookWebhook cfg net entry) = Inr r)
   \<and> (\<exists>r. fst (processInstagramWebhook cfg net entry) = Inr r)
   \<and> (\<forall>e. fst (processFacebookWebhook_try cfg net entry) = Inl e \<longrightarrow>
          fst (processFacebookWebhook cfg net entry) = Inr None)
   \<and> (\<forall>e. fst (processInstagramWebhook_try cfg net entry) = Inl e \<longrightarrow>
          fst (processInstagramWebhook cfg net entry) = Inr None)"
  by (auto simp: processFacebookWebhook_def processInstagramWebhook_def catch_null_def
           split: sum.splits)


theorem extractors_return_option_witness:
  "isl (fst (processFacebookWebhook_try cfg0 net0 JNull))
   \<and> fst (processFacebookWebhook cfg0 net0 JNull) = Inr None
   \<and> isl (fst (processFacebookWebhook_try cfg0 net0 (entryOf [fbCommentOf (JNum 5)])))
   \<and> fst (processFacebookWebhook cfg0 net0 (entryOf [fbCommentOf (JNum 5)])) = Inr None
   \<and> isl (fst (processInstagramWebhook_try cfg0 net0 (JObj [(''changes'', JArr [JNull])])))
   \<and> fst (processInstagramWebhook cfg0 net0 (JObj [(''changes'', JArr [JNull])])) = Inr None
   \<and> isl (fst (processInstagramWebhook_try cfg0 net0 (entryOf [igCommentOf (JObj [])])))
   \<and> fst (processInstagramWebhook cfg0 net0 (entryOf [igCommentOf (JObj [])])) = Inr None"
proof -
  have a: "isl (fst (processFacebookWebhook_try cfg0 net0 JNull))"
          "isl (fst (processFacebookWebhook_try cfg0 net0 (entryOf [fbCommentOf (JNum 5)])))"
          "isl (fst (processInstagramWebhook_try cfg0 net0 (JObj [(''changes'', JArr [JNull])])))"
          "isl (fst (processInstagramWebhook_try cfg0 net0 (entryOf [igCommentOf (JObj [])])))"
    by code_simp+
  from a extractors_return_option[of cfg0 net0 JNull]
    extractors_return_option[of cfg0 net0 "entryOf [fbCommentOf (JNum 5)]"]
    extractors_return_option[of cfg0 net0 "JObj [(''changes'', JArr [JNull])]"]
    extractors_return_option[of cfg0 net0 "entryOf [igCommentOf (JObj [])]"]
  show ?thesis
    by (auto simp: isl_def)
qed


text \<open>
  C6. \<open>processFacebookWebhook\<close> and \<open>processInstagramWebhook\<close> examine the first element
  of \<open>entry.changes\<close> only: two entries whose change lists start with the same change (and
  that carry the same time) give the same result, so a mention that appears only in a
  later change produces no mention record.
\<close>

theorem only_first_change_examined:
  "js_get e1 ''changes'' = Inr (JArr (c # r1)) \<and> js_get e2 ''changes'' = Inr (JArr (c # r2)) \<and>
   js_get e1 ''time'' = js_get e2 ''time'' \<longrightarrow>
     processFacebookWebhook cfg net e1 = processFacebookWebhook cfg net e2 \<and>
     processInstagramWebhook cfg net e1 = processInstagramWebhook cfg net e2"
proof (intro impI, elim conjE)
  assume a: "js_get e1 ''changes'' = Inr (JArr (c # r1))" "js_get e2 ''changes'' = Inr (JArr (c # r2))"
    and t: "js_get e1 ''time'' = js_get e2 ''time''"
  have "processFacebookWebhook_try cfg net e1 = processFacebookWebhook_try cfg net e2"
    unfolding processFacebookWebhook_try_def facebookCommentData_first[OF a] t ..
  moreover have "processInstagramWebhook_try cfg net e1 = processInstagramWebhook_try cfg net e2"
    unfolding processInstagramWebhook_try_def instagramCommentData_first[OF a] t ..
  ultimately show "processFacebookWebhook cfg net e1 = processFacebookWebhook cfg net e2 \<and>
     processInstagramWebhook cfg net e1 = processInstagramWebhook cfg net e2"
    by (simp add: processFacebookWebhook_def processInstagramWebhook_def)
qed

theorem only_first_change_examined_witness:
  "js_get (entryOf [otherChange, fbComment ''Great shot, @acme!'', igComment ''Hello @acme''])
      ''changes'' = Inr (JArr (otherChange # [fbComment ''Great shot, @acme!'', igComment ''Hello @acme'']))
   \<and> js_get (entryOf [otherChange]) ''changes'' = Inr (JArr (otherChange # []))
   \<and> processFacebookWebhook cfg0 net0
        (entryOf [otherChange, fbComment ''Great shot, @acme!'', igComment ''Hello @acme''])
      = (Inr None, [])
   \<and> processInstagramWebhook cfg0 net0
        (entryOf [otherChange, fbComment ''Great shot, @acme!'', igComment ''Hello @acme''])
      = (Inr None, [])"
proof -
  let ?e1 = "entryOf [otherChange, fbComment ''Great shot, @acme!'', igComment ''Hello @acme'']"
  let ?e2 = "entryOf [otherChange]"
  have a: "js_get ?e1 ''changes'' = Inr (JArr (otherChange # [fbComment ''Great shot, @acme!'', igComment ''Hello @acme'']))"
          "js_get ?e2 ''changes'' = Inr (JArr (otherChange # []))"
          "js_get ?e1 ''time'' = js_get ?e2 ''time''"
    by (simp_all add: entryOf_def)
  have b: "processFacebookWebhook cfg0 net0 ?e2 = (Inr None, [])"
          "processInstagramWebhook cfg0 net0 ?e2 = (Inr None, [])"
    by code_simp+
  from only_first_change_examined[of ?e1 otherChange _ ?e2 "[]" cfg0 net0] a b
  show ?thesis by simp
qed

text \<open>
  The handler of \<open>webhook-server.js\<close> loops over all the changes of an entry: a comment
  in second place, which the Instagram extractor ignores, is handled and mailed.
\<close>

theorem every_change_dispatched_counterexample:
  "processInstagramWebhook cfg0 net0 (entryOf [otherChange, igComment ''Hello @acme'']) = (Inr None, [])
   \<and> snd (legacyPost reg0 net0 now0 (bodyOf ''instagram'' [entryOf [otherChange, igComment ''Hello @acme'']])) ! 0
       = HandleComment (js_prop (igComment ''Hello @acme'') ''value'')
   \<and> isSendMail (snd (legacyPost reg0 net0 now0
        (bodyOf ''instagram'' [entryOf [otherChange, igComment ''Hello @acme'']])) ! 2)
   \<and> js_prop (case snd (legacyPost reg0 net0 now0
        (bodyOf ''instagram'' [entryOf [otherChange, igComment ''Hello @acme'']])) ! 2 of
          SendMail m \<Rightarrow> m | _ \<Rightarrow> JUndefined) ''mentionedUsername'' = JStr ''acme''"
  by code_simp

text \<open>
  C7. In the extractors the lookup of one configured username \<open>u\<close> in a text matches
  exactly when the text contains \<open>@u\<close> as a substring, character for character (so a
  text that has \<open>@U\<close> in another letter case, and not \<open>@u\<close>, does not match); on the
  Facebook path a page matches exactly when the text contains \<open>@PageName\<close> or
  \<open>@[pageId]\<close> in the same literal way. The lookup of \<open>handleComment\<close> in
  \<open>webhook-server.js\<close> compares the lower-cased text with the lower-cased username.
\<close>

theorem mention_lookup_case_sensitive:
  "(js_includes (JStr t) (''@'' @ u) = Inr True \<longleftrightarrow> (\<exists>ps ss. t = ps @ ''@'' @ u @ ss))
   \<and> findUsername [u] (JStr t) = Inr (if (\<exists>ps ss. t = ps @ ''@'' @ u @ ss) then u else '''')
   \<and> findPage [p] (JStr t) =
       Inr (if (\<exists>ps ss. t = ps @ ''@'' @ page_name p @ ss) \<or>
               (\<exists>ps ss. t = ps @ ''@['' @ page_id p @ '']'' @ ss)
            then (case instagramUsername p of Some v \<Rightarrow> v | None \<Rightarrow> '''', page_id p)
            else ('''', ''''))
   \<and> findAccount [u] (JStr t) =
       Inr (if (\<exists>ps ss. toLowerCase t = ps @ ''@'' @ toLowerCase u @ ss) then Some u else None)"
proof -
  have i: "str_includes t (''@['' @ page_id p @ '']'') \<longleftrightarrow>
             (\<exists>ps ss. t = ps @ ''@['' @ page_id p @ '']'' @ ss)"
    by (simp add: str_includes_ex)
  have 1: "js_includes (JStr t) (''@'' @ u) = Inr True \<longleftrightarrow> str_includes t (''@'' @ u)"
    by simp
  have 2: "findUsername [u] (JStr t) = Inr (if str_includes t (''@'' @ u) then u else '''')"
    by simp
  have 3: "findPage [p] (JStr t) =
       Inr (if str_includes t (''@'' @ page_name p) \<or> str_includes t (''@['' @ page_id p @ '']'')
            then (case instagramUsername p of Some v \<Rightarrow> v | None \<Rightarrow> '''', page_id p)
            else ('''', ''''))"
    by (auto split: option.splits)
  have 4: "findAccount [u] (JStr t) =
       Inr (if str_includes (toLowerCase t) (''@'' @ toLowerCase u) then Some u else None)"
    by simp
  from 1 2 3 4 show ?thesis
    unfolding i str_includes_at by blast
qed

theorem mention_lookup_case_sensitive_witness:
  "findUsername [''acme''] (JStr ''Hello @ACME'') = Inr ''''
   \<and> findUsername [''acme''] (JStr ''Hello @acme'') = Inr ''acme''
   \<and> findPage [pageAcme] (JStr ''Hello @acme'') = Inr ('''', '''')
   \<and> findPage [pageAcme] (JStr ''Hello @Acme'') = Inr (''acme'', ''111'')
   \<and> findPage [pageAcme] (JStr ''Hello @[111]'') = Inr (''acme'', ''111'')
   \<and> \<not> (\<exists>ps ss. ''Hello @ACME'' = ps @ ''@'' @ ''acme'' @ ss)
   \<and> findAccount [''acme''] (JStr ''Hello @ACME'') = Inr (Some ''acme'')"
proof -
  have a: "\<not> str_includes ''Hello @ACME'' (''@'' @ ''acme'')"
          "str_includes ''Hello @acme'' (''@'' @ ''acme'')"
          "\<not> str_includes ''Hello @acme'' (''@'' @ page_name pageAcme)"
          "\<not> str_includes ''Hello @acme'' (''@['' @ page_id pageAcme @ '']'')"
          "str_includes ''Hello @Acme'' (''@'' @ page_name pageAcme)"
          "str_includes ''Hello @[111]'' (''@['' @ page_id pageAcme @ '']'')"
          "str_includes (toLowerCase ''Hello @ACME'') (''@'' @ toLowerCase ''acme'')"
    by code_simp+
  have p: "instagramUsername pageAcme = Some ''acme''" "page_id pageAcme = ''111''"
    by (simp_all add: pageAcme_def)
  note b = a[unfolded str_includes_at] a(4,6)[unfolded str_includes_ex, simplified append_assoc]
  from mention_lookup_case_sensitive[of "''Hello @ACME''" "''acme''" pageAcme]
       mention_lookup_case_sensitive[of "''Hello @acme''" "''acme''" pageAcme]
       mention_lookup_case_sensitive[of "''Hello @Acme''" "''acme''" pageAcme]
       mention_lookup_case_sensitive[of "''Hello @[111]''" "''acme''" pageAcme] b p
  show ?thesis
    by (simp del: str_includes.simps findUsername.simps findPage.simps)
qed

text \<open>
  So \<open>handleComment\<close> matches a text that differs from the monitored username in letter
  case, and sends the mail.
\<close>

theorem legacy_lookup_ignores_case_counterexample:
  "\<not> str_includes ''Hello @ACME'' (''@'' @ ''acme'')
   \<and> findAccount (map fst (instagramAccounts reg0)) (JStr ''Hello @ACME'') = Inr (Some ''acme'')
   \<and> isSendMail (handleComment reg0 net0 now0 (js_prop (igComment ''Hello @ACME'') ''value'') ! 2)
   \<and> js_prop (case handleComment reg0 net0 now0 (js_prop (igComment ''Hello @ACME'') ''value'') ! 2 of
          SendMail m \<Rightarrow> m | _ \<Rightarrow> JUndefined) ''mentionedUsername'' = JStr ''acme''"
  by code_simp
section \<open>Claims about the webhook endpoint\<close>




text \<open>
  C3. In \<open>processWebhook\<close> (webhookController.ts) the acknowledgment, status 200 with body
  \<open>EVENT_RECEIVED\<close>, is the first thing that happens, for every body: every entry handed
  to an extractor, every request of a detail fetcher and every record handed to the
  notifier comes after it, and no second response is sent.
\<close>

theorem acknowledgment_first:
  "\<exists>rest. processWebhook cfg net notify payload = acknowledgment # rest
          \<and> list_all (\<lambda>ev. \<not> isRespond ev) rest"
proof -
  have "list_all (\<lambda>ev. \<not> isRespond ev) (snd (processWebhook_try cfg net notify payload))"
    unfolding processWebhook_try_def
    using processEntries_no_response
    by (auto split: sum.splits)
  then show ?thesis
    by (simp add: processWebhook_def acknowledgment_def)
qed

theorem acknowledgment_first_witness:
  "processWebhook cfg0 net0 notify0 (bodyOf ''page'' [entryOf [fbComment ''Great shot, @acme!'']])
     ! 0 = acknowledgment
   \<and> processWebhook cfg0 net0 notify0 (bodyOf ''page'' [entryOf [fbComment ''Great shot, @acme!'']])
     ! 1 = Extract ''page'' (entryOf [fbComment ''Great shot, @acme!''])
   \<and> isFetch (processWebhook cfg0 net0 notify0
        (bodyOf ''page'' [entryOf [fbComment ''Great shot, @acme!'']]) ! 2)
   \<and> length (processWebhook cfg0 net0 notify0
        (bodyOf ''page'' [entryOf [fbComment ''Great shot, @acme!'']])) = 4
   \<and> list_all (\<lambda>ev. \<not> isRespond ev)
        (tl (processWebhook cfg0 net0 notify0 (bodyOf ''page'' [entryOf [fbComment ''Great shot, @acme!'']])))"
proof -
  let ?p = "processWebhook cfg0 net0 notify0 (bodyOf ''page'' [entryOf [fbComment ''Great shot, @acme!'']])"
  have e: "?p ! 1 = Extract ''page'' (entryOf [fbComment ''Great shot, @acme!''])"
          "isFetch (?p ! 2)" "length ?p = 4"
    by code_simp+
  from acknowledgment_first[of cfg0 net0 notify0 "bodyOf ''page'' [entryOf [fbComment ''Great shot, @acme!'']]"]
  obtain rest where "?p = acknowledgment # rest" "list_all (\<lambda>ev. \<not> isRespond ev) rest"
    by blast
  with e show ?thesis by simp
qed

text \<open>
  The handler of \<open>webhook-server.js\<close> is the other way round: for a comment that
  mentions a monitored account it has fetched the post and sent the mail before it
  acknowledges.
\<close>

theorem acknowledgment_after_processing_counterexample:
  "snd (legacyPost reg0 net0 now0 (bodyOf ''instagram'' [entryOf [igComment ''Hello @acme'']])) ! 0
     = HandleComment (js_prop (igComment ''Hello @acme'') ''value'')
   \<and> isFetch (snd (legacyPost reg0 net0 now0 (bodyOf ''instagram'' [entryOf [igComment ''Hello @acme'']])) ! 1)
   \<and> isSendMail (snd (legacyPost reg0 net0 now0 (bodyOf ''instagram'' [entryOf [igComment ''Hello @acme'']])) ! 2)
   \<and> snd (legacyPost reg0 net0 now0 (bodyOf ''instagram'' [entryOf [igComment ''Hello @acme'']])) ! 3
     = acknowledgment
   \<and> length (snd (legacyPost reg0 net0 now0 (bodyOf ''instagram'' [entryOf [igComment ''Hello @acme'']]))) = 4"
  by code_simp


section \<open>Claims about the detail fetchers\<close>

text \<open>
  C4. The detail fetchers of the two services (\<open>getFacebookPostDetails\<close>,
  \<open>getInstagramMediaDetails\<close> and \<open>getInstagramUserDetails\<close>), called with an empty
  access token, issue no request and return null, for every post, media or user
  identifier. \<open>getFacebookPostDetails\<close> of \<open>webhook-server.js\<close> has no such check: it
  issues its one request whatever the token is, for every identifier that can be
  interpolated into the request's URL (every string can). For an identifier that cannot
  (an object with an own \<open>toString\<close> key), building the URL throws before the request,
  and it issues none, again whatever the token is.
\<close>

theorem detail_fetchers_empty_token:
  "getFacebookPostDetails net post '''' = (JNull, [])
   \<and> getInstagramMediaDetails net media '''' = (JNull, [])
   \<and> getInstagramUserDetails net user '''' = (JNull, [])
   \<and> (printable post \<longrightarrow> length (snd (legacyGetFacebookPostDetails net post accessToken)) = 1)
   \<and> (\<not> printable post \<longrightarrow> snd (legacyGetFacebookPostDetails net post accessToken) = [])"
  by (simp add: getFacebookPostDetails_def getInstagramMediaDetails_def getInstagramUserDetails_def
        legacyGetFacebookPostDetails_def Let_def printable_def split: sum.splits)

theorem detail_fetchers_empty_token_witness:
  "getFacebookPostDetails net0 (JStr ''111_1'') '''' = (JNull, [])
   \<and> snd (getFacebookPostDetails net0 (JStr ''111_1'') ''tokA'') \<noteq> []
   \<and> getInstagramMediaDetails net0 (JStr ''m1'') '''' = (JNull, [])
   \<and> getInstagramUserDetails net0 (JStr ''u1'') '''' = (JNull, [])
   \<and> length (snd (legacyGetFacebookPostDetails net0 (JStr ''111_1'') (Some ''''))) = 1
   \<and> snd (legacyGetFacebookPostDetails net0 unprintable (Some '''')) = []"
  using detail_fetchers_empty_token[of net0 "JStr ''111_1''" "JStr ''m1''" "JStr ''u1''" "Some ''''"]
        detail_fetchers_empty_token[of net0 unprintable "JStr ''m1''" "JStr ''u1''" "Some ''''"]
  by (simp add: getFacebookPostDetails_def Let_def printable_def unprintable_def)

text \<open>
  With an empty token, \<open>getFacebookPostDetails\<close> of \<open>webhook-server.js\<close> sends the
  request, with the empty token as its parameter, and returns an object, not null.
\<close>

theorem legacy_fetcher_empty_token_counterexample:
  "snd (legacyGetFacebookPostDetails net0 (JStr ''111_1'') (Some ''''))
     = [\<lparr>req_url = ''https://graph.facebook.com/v19.0/111_1'', req_access_token = Some '''',
         req_fields = ''id,message,permalink_url,created_time,from{id,name,picture},attachments''\<rparr>]
   \<and> js_prop (JObj (fst (legacyGetFacebookPostDetails net0 (JStr ''111_1'') (Some ''''))))
        ''postMessage'' = JStr ''Our new post''
   \<and> JObj (fst (legacyGetFacebookPostDetails net0 (JStr ''111_1'') (Some ''''))) \<noteq> JNull"
  by code_simp

end
